(* ===== verification/Prelude.thy ===== *)
theory Prelude
  imports Main
begin

text \<open>
  Shared vocabulary of the development: the data the components exchange
  (\<open>GetUserInfoDto\<close> and \<open>CardInfo\<close> of \<open>fe/src/types/types\<close>, which the
  components import but which is not among the sources, so both are taken
  from the spec's data model), the decimal rendering of JavaScript numbers
  used by the receipt and the date line, with its parser, and the generic
  list lemmas the component proofs share.
\<close>

named_theorems model_simps "equations of the model that evaluation and proofs unfold"
named_theorems inv_simps "facts that carry the invariant proofs of the components"

section \<open>Shared data\<close>

type_synonym topic = string
type_synonym user_id = nat

text \<open>\<open>GetUserInfoDto\<close>: the logged-in user kept in the Redux store.\<close>

record user_info =
  uid :: user_id
  uname :: string

text \<open>\<open>CardInfo\<close>: one line of a cart as the backend returns it.\<close>

record card_info =
  productId :: int
  productName :: string
  quantity :: int
  price :: int

text \<open>
  The cart of the spec's scenarios (\<section>8): two tea lines, one matcha line,
  for the user with id 7.
\<close>

definition tea :: card_info where
  "tea = \<lparr>productId = 1, productName = ''Tea'', quantity = 2, price = 50000\<rparr>"

definition matcha :: card_info where
  "matcha = \<lparr>productId = 2, productName = ''Matcha'', quantity = 1, price = 120000\<rparr>"

definition alice :: user_info where
  "alice = \<lparr>uid = 7, uname = ''An''\<rparr>"

section \<open>Decimal rendering of numbers\<close>

text \<open>
  A template literal \<open>`${n}`\<close> or a concatenation \<open>n + " VND"\<close> renders an
  integral JavaScript number in decimal, without leading zeros, with a minus
  sign when negative. \<open>show_int\<close> is that rendering; \<open>parse_int\<close> reads it back.
\<close>

definition digit_chr :: "nat \<Rightarrow> char" where
  "digit_chr d = char_of (48 + d)"

definition digit_val :: "char \<Rightarrow> nat option" where
  "digit_val c = (let k = of_char c in if 48 \<le> k \<and> k < 58 then Some (k - 48) else None)"

fun show_nat :: "nat \<Rightarrow> string" where
  "show_nat n = (if n < 10 then [digit_chr n] else show_nat (n div 10) @ [digit_chr (n mod 10)])"

declare show_nat.simps [simp del]

fun parse_digits :: "nat \<Rightarrow> string \<Rightarrow> nat option" where
  "parse_digits acc [] = Some acc"
| "parse_digits acc (c # cs) =
     (case digit_val c of None \<Rightarrow> None | Some d \<Rightarrow> parse_digits (10 * acc + d) cs)"

definition parse_nat :: "string \<Rightarrow> nat option" where
  "parse_nat s = (if s = [] then None else parse_digits 0 s)"

definition show_int :: "int \<Rightarrow> string" where
  "show_int i = (if i < 0 then CHR ''-'' # show_nat (nat (- i)) else show_nat (nat i))"

definition parse_int :: "string \<Rightarrow> int option" where
  "parse_int s = (case s of
       c # r \<Rightarrow> if c = CHR ''-'' then map_option (\<lambda>n. - int n) (parse_nat r)
               else map_option int (parse_nat s)
     | [] \<Rightarrow> None)"

subsection \<open>Lemmas on the rendering\<close>

lemma digit_val_chr [simp]: "d < 10 \<Longrightarrow> digit_val (digit_chr d) = Some d"
  by (simp add: digit_val_def digit_chr_def)

lemma digit_val_minus [simp]: "digit_val CHR ''-'' = None"
  by (simp add: digit_val_def)

lemma digit_chr_not_minus [simp]: "d < 10 \<Longrightarrow> digit_chr d \<noteq> CHR ''-''"
  using digit_val_chr [of d] digit_val_minus by (metis option.distinct(1))

text \<open>The digits, for evaluating renderings of concrete numbers with \<open>simp\<close>.\<close>

lemma digit_chr_simps [simp]:
  "digit_chr 0 = CHR ''0''" "digit_chr 1 = CHR ''1''" "digit_chr 2 = CHR ''2''"
  "digit_chr 3 = CHR ''3''" "digit_chr 4 = CHR ''4''" "digit_chr 5 = CHR ''5''"
  "digit_chr 6 = CHR ''6''" "digit_chr 7 = CHR ''7''" "digit_chr 8 = CHR ''8''"
  "digit_chr 9 = CHR ''9''" "digit_chr (Suc 0) = CHR ''1''"
  by code_simp+

lemmas show_eval [model_simps] = show_nat.simps show_int_def

lemma parse_digits_append:
  "parse_digits acc (xs @ ys) =
     (case parse_digits acc xs of None \<Rightarrow> None | Some a \<Rightarrow> parse_digits a ys)"
  by (induction acc xs rule: parse_digits.induct) (auto split: option.splits)

lemma show_nat_not_Nil [simp]: "show_nat n \<noteq> []"
  by (subst show_nat.simps) simp

lemma show_nat_hd_digit: "\<exists>d < 10. hd (show_nat n) = digit_chr d"
proof (induction n rule: show_nat.induct)
  case (1 n)
  then show ?case
    by (cases "n < 10") (auto simp: show_nat.simps [of n])
qed

lemma show_nat_hd_not_minus [simp]: "hd (show_nat n) \<noteq> CHR ''-''"
  using show_nat_hd_digit [of n] digit_chr_not_minus by metis

lemma show_nat_digits: "c \<in> set (show_nat n) \<Longrightarrow> \<exists>d < 10. c = digit_chr d"
proof (induction n rule: show_nat.induct)
  case (1 n)
  show ?case
  proof (cases "n < 10")
    case True
    with "1.prems" show ?thesis by (auto simp: show_nat.simps [of n])
  next
    case False
    with "1.prems" have "c \<in> set (show_nat (n div 10)) \<or> c = digit_chr (n mod 10)"
      by (auto simp: show_nat.simps [of n])
    then show ?thesis
    proof
      assume "c \<in> set (show_nat (n div 10))"
      with False "1.IH" show ?thesis by simp
    next
      assume "c = digit_chr (n mod 10)"
      then show ?thesis by (intro exI [of _ "n mod 10"]) simp
    qed
  qed
qed

lemma digit_val_slash [simp]: "digit_val CHR ''/'' = None"
  by (simp add: digit_val_def)

lemma slash_not_in_show_nat [simp]: "CHR ''/'' \<notin> set (show_nat n)"
proof
  assume "CHR ''/'' \<in> set (show_nat n)"
  then obtain d where "d < 10" and "CHR ''/'' = digit_chr d" by (blast dest: show_nat_digits)
  then have "digit_val CHR ''/'' = Some d" by simp
  then show False by simp
qed

lemma parse_digits_show_nat:
  "parse_digits acc (show_nat n) = Some (acc * 10 ^ length (show_nat n) + n)"
proof (induction n arbitrary: acc rule: show_nat.induct)
  case (1 n)
  show ?case
  proof (cases "n < 10")
    case True
    then show ?thesis by (simp add: show_nat.simps [of n])
  next
    case False
    then show ?thesis
      using "1.IH" by (simp add: show_nat.simps [of n] parse_digits_append algebra_simps)
  qed
qed

lemma parse_nat_show_nat [simp]: "parse_nat (show_nat n) = Some n"
  by (simp add: parse_nat_def parse_digits_show_nat)

lemma parse_int_show_int [simp]: "parse_int (show_int i) = Some i"
proof (cases "i < 0")
  case True
  then show ?thesis by (simp add: show_int_def parse_int_def)
next
  case False
  obtain c r where cr: "show_nat (nat i) = c # r"
    using show_nat_not_Nil by (cases "show_nat (nat i)") auto
  have c: "c \<noteq> CHR ''-''"
    using show_nat_hd_not_minus [of "nat i"] cr by simp
  from False cr have "show_int i = c # r"
    by (simp add: show_int_def)
  with c have "parse_int (show_int i) = map_option int (parse_nat (c # r))"
    by (simp add: parse_int_def)
  also from False have "\<dots> = Some i"
    by (simp flip: cr)
  finally show ?thesis .
qed

lemma show_int_inj: "show_int i = show_int j \<Longrightarrow> i = j"
  by (metis option.inject parse_int_show_int)

section \<open>Lists\<close>

text \<open>
  \<open>removeAll\<close> is how the model removes a listener (\<open>Emitter.off\<close>,
  \<open>removeEventListener\<close>); these facts carry the listener invariants.
\<close>

lemma removeAll_filter_commute [inv_simps]:
  "removeAll x (filter P xs) = filter P (removeAll x xs)"
  by (induction xs) auto

lemma filter_removeAll_other [inv_simps]:
  "\<not> P x \<Longrightarrow> filter P (removeAll x xs) = filter P xs"
  by (induction xs) auto

lemma removeAll_singleton_list [simp]:
  "removeAll x [y] = (if x = y then [] else [y])"
  by simp

text \<open>Removing the \<open>i\<close>-th element of a list (a settled request leaves the queue).\<close>

definition remove_nth :: "nat \<Rightarrow> 'a list \<Rightarrow> 'a list" where
  "remove_nth i xs = take i xs @ drop (Suc i) xs"

lemma length_remove_nth [simp]: "i < length xs \<Longrightarrow> length (remove_nth i xs) = length xs - 1"
  by (simp add: remove_nth_def)

lemma set_remove_nth_subset: "set (remove_nth i xs) \<subseteq> set xs"
  by (auto simp: remove_nth_def dest: in_set_takeD in_set_dropD)

lemma list_all_remove_nth [inv_simps]: "list_all P xs \<Longrightarrow> list_all P (remove_nth i xs)"
  using set_remove_nth_subset by (fastforce simp: list_all_iff)

lemma remove_nth_last [simp]: "remove_nth (length xs) (xs @ [x]) = xs"
  by (simp add: remove_nth_def)

lemma count_list_filter_keep [simp]: "P x \<Longrightarrow> count_list (filter P xs) x = count_list xs x"
  by (induction xs) auto

lemma count_list_removeAll [simp]:
  "count_list (removeAll x xs) y = (if x = y then 0 else count_list xs y)"
  by (induction xs) auto

end
