(* ===== verification/EventBus.thy ===== *)
theory EventBus
  imports Prelude
begin

text \<open>
  The process-wide event emitter \<open>Emitter\<close> of
  \<open>fe/src/eventEmitter/EventEmitter\<close> (spec \<section>4.1). The module is not among
  the sources; the Navbar uses it as \<open>Emitter.on(topic, fn)\<close>,
  \<open>Emitter.off(topic, fn)\<close>, and other components publish with
  \<open>Emitter.emit(topic)\<close>. The model follows the spec and that interface:
  the emitter is the list of its (topic, handler) subscriptions in
  subscription order; \<open>on\<close> appends one, \<open>off\<close> removes every subscription of
  that handler value on that topic, \<open>emit\<close> takes a snapshot of the topic's
  handlers and runs them in order over the caller's state.

  A handler is a value of a type of the client (\<open>'h\<close>); running it is a
  function the client supplies, over the client's own state (\<open>'s\<close>), which
  returns the new state and, when the handler throws, its error. The
  emitter lives inside that state (\<open>get\<close> reads it), so a handler may
  subscribe or unsubscribe while a publish is being delivered.
\<close>

record ('t, 'h) emitter =
  listeners :: "('t \<times> 'h) list"

definition empty_emitter :: "('t, 'h) emitter" where
  "empty_emitter = \<lparr>listeners = []\<rparr>"

definition on :: "'t \<Rightarrow> 'h \<Rightarrow> ('t, 'h) emitter \<Rightarrow> ('t, 'h) emitter" where
  "on t h e = e\<lparr>listeners := listeners e @ [(t, h)]\<rparr>"

definition off :: "'t \<Rightarrow> 'h \<Rightarrow> ('t, 'h) emitter \<Rightarrow> ('t, 'h) emitter" where
  "off t h e = e\<lparr>listeners := removeAll (t, h) (listeners e)\<rparr>"

definition handlers_of :: "'t \<Rightarrow> ('t, 'h) emitter \<Rightarrow> 'h list" where
  "handlers_of t e = map snd (filter (\<lambda>(t', _). t' = t) (listeners e))"

text \<open>
  Delivery runs the snapshot in order. A handler that throws (\<open>Some err\<close>)
  keeps the effects it had before throwing; the error is recorded in the
  trace and delivery goes on with the next handler, so it never reaches the
  publisher (spec \<section>7).
\<close>

fun deliver :: "('h \<Rightarrow> 's \<Rightarrow> 's \<times> 'e option) \<Rightarrow> 'h list \<Rightarrow> 's \<Rightarrow> 's \<times> ('h \<times> 'e option) list" where
  "deliver run [] s = (s, [])"
| "deliver run (h # hs) s =
     (let (s1, r) = run h s; (s2, tr) = deliver run hs s1 in (s2, (h, r) # tr))"

definition emit :: "('s \<Rightarrow> ('t, 'h) emitter) \<Rightarrow> ('h \<Rightarrow> 's \<Rightarrow> 's \<times> 'e option) \<Rightarrow> 't \<Rightarrow> 's
    \<Rightarrow> 's \<times> ('h \<times> 'e option) list" where
  "emit get run t s = deliver run (handlers_of t (get s)) s"

subsection \<open>Lemmas\<close>

lemma handlers_of_on [simp]:
  "handlers_of t' (on t h e) = (if t' = t then handlers_of t' e @ [h] else handlers_of t' e)"
  by (simp add: handlers_of_def on_def)

lemma map_snd_filter_removeAll:
  "map snd (filter (\<lambda>(t', _). t' = t) (removeAll (t, h) xs))
     = removeAll h (map snd (filter (\<lambda>(t', _). t' = t) xs))"
  by (induction xs) auto

lemma filter_topic_removeAll_other:
  "t' \<noteq> t \<Longrightarrow> filter (\<lambda>(t'', _). t'' = t') (removeAll (t, h) xs)
     = filter (\<lambda>(t'', _). t'' = t') xs"
  by (induction xs) auto

lemma handlers_of_off [simp]:
  "handlers_of t' (off t h e) = (if t' = t then removeAll h (handlers_of t' e) else handlers_of t' e)"
  by (simp add: handlers_of_def off_def map_snd_filter_removeAll filter_topic_removeAll_other)

lemma handlers_of_empty [simp]: "handlers_of t empty_emitter = []"
  by (simp add: handlers_of_def empty_emitter_def)

lemma deliver_trace: "map fst (snd (deliver run hs s)) = hs"
  by (induction hs arbitrary: s) (auto simp: split_def Let_def)

text \<open>
  The interface a client discharges: when no handler changes a projection
  \<open>f\<close> of the client's state, no publish changes it.
\<close>

lemma deliver_preserves:
  assumes "\<And>h s. f (fst (run h s)) = f s"
  shows "f (fst (deliver run hs s)) = f s"
  using assms by (induction hs arbitrary: s) (auto simp: split_def Let_def)

lemma filter_handlers_of:
  "filter P (handlers_of t e) = map snd (filter (\<lambda>(t', h). t' = t) (filter (\<lambda>(_, h). P h) (listeners e)))"
proof -
  have "filter P (map snd (filter (\<lambda>(t', _). t' = t) xs))
        = map snd (filter (\<lambda>(t', h). t' = t) (filter (\<lambda>(_, h). P h) xs))" for xs
    by (induction xs) auto
  then show ?thesis by (simp add: handlers_of_def)
qed

lemma listeners_off [simp]: "listeners (off t h e) = removeAll (t, h) (listeners e)"
  by (simp add: off_def)

lemma listeners_on [simp]: "listeners (on t h e) = listeners e @ [(t, h)]"
  by (simp add: on_def)

lemma count_handlers_of: "count_list (handlers_of t e) h = count_list (listeners e) (t, h)"
proof -
  have "count_list (map snd (filter (\<lambda>(t', _). t' = t) xs)) h = count_list xs (t, h)" for xs
    by (induction xs) auto
  then show ?thesis by (simp add: handlers_of_def)
qed

lemma emit_trace:
  "map fst (snd (emit get run t s)) = handlers_of t (get s)"
  by (simp add: emit_def deliver_trace)

lemma off_on_roundtrip: "(t, h) \<notin> set (listeners e) \<Longrightarrow> off t h (on t h e) = e"
  by (simp add: on_def off_def)

end
