(* ===== verification/Navbar.thy ===== *)
theory Navbar
  imports EventBus
begin

text \<open>
  The Navbar of \<open>fe/src/components/Header/Navbar.tsx\<close>: the cart badge kept
  in step with the backend through the event bus (the Cart Synchronizer of
  spec \<section>4.2), and the mobile menu with its document-level "click outside"
  listener. The model is the Navbar together with what it talks to: the
  shared emitter, the backend's carts, the Redux user, the document's
  mousedown listeners, and the in-flight \<open>getCartByUser\<close> calls. Each React
  state, effect, cleanup and handler of the component is one definition;
  \<open>nav_step\<close> applies one event of the environment (mount, unmount, a publish
  by some component, a backend change, a reply or failure of a pending
  request, a click) and \<open>nav_reach\<close> is the set of states reachable from a
  start state in any interleaving of them.

  Identities. Each render of a function component creates fresh closures,
  and \<open>Emitter.off\<close> and \<open>removeEventListener\<close> remove a listener by identity.
  A \<open>handleEvent\<close> closure is \<open>HandleEvent g u\<close>: the \<open>g\<close>-th mounted instance,
  with the user id its effect captured; a \<open>handleClickOutside\<close> closure is the
  number of the render that created it. Handlers of other components on
  the bus are \<open>ExtHandler n\<close>.

  Requests. \<open>getCartByUser(id)\<close> is modelled as a request the backend answers
  when it is issued (with the cart it holds then); the answer reaches the
  Navbar later, in any order relative to other answers (\<open>Resolve i\<close>), or
  the call fails (\<open>Reject i\<close>). The \<open>await\<close> has no \<open>catch\<close>, so a failure
  changes nothing but the queue.
\<close>

definition upd_topic :: topic where
  "upd_topic = ''updateCartNumber''"

datatype nav_handler = HandleEvent nat "user_id option" | ExtHandler nat

fun is_nav :: "nav_handler \<Rightarrow> bool" where
  "is_nav (HandleEvent _ _) = True"
| "is_nav (ExtHandler _) = False"

record request =
  req_gen :: nat
  req_user :: "user_id option"
  req_reply :: "card_info list"

record nav_sys =
  bus :: "(topic, nav_handler) emitter"
  server :: "user_id option \<Rightarrow> card_info list"
  store_user :: "user_info option"
  mounted :: bool
  gen :: nat
  mount_user :: "user_id option"
  cartCount :: nat
  isMenuOpen :: bool
  render :: nat
  menu_handler :: nat
  doc :: "nat list"
  pending :: "request list"

section \<open>The document's listener list\<close>

text \<open>
  \<open>addEventListener\<close> ignores a listener that is already registered;
  \<open>removeEventListener\<close> of a listener that is not registered does nothing.
\<close>

definition addEventListener :: "nat \<Rightarrow> nat list \<Rightarrow> nat list" where
  "addEventListener r d = (if r \<in> set d then d else d @ [r])"

definition removeEventListener :: "nat \<Rightarrow> nat list \<Rightarrow> nat list" where
  "removeEventListener r d = removeAll r d"

section \<open>The cart badge\<close>

text \<open>\<open>fetchCart\<close> (lines 43--46): issue \<open>getCartByUser(user?.id)\<close>.\<close>

definition fetchCart :: "nat \<Rightarrow> user_id option \<Rightarrow> nav_sys \<Rightarrow> nav_sys" where
  "fetchCart g u s =
     s\<lparr>pending := pending s @ [\<lparr>req_gen = g, req_user = u, req_reply = server s u\<rparr>]\<rparr>"

text \<open>
  The first effect (lines 42--55), run once after mounting (its dependency
  list is empty): fetch when a user is logged in, then subscribe
  \<open>handleEvent\<close>. Both closures capture the user of the first render.
\<close>

definition cart_effect :: "nav_sys \<Rightarrow> nav_sys" where
  "cart_effect s =
     (let u = map_option uid (store_user s);
          s1 = (if store_user s \<noteq> None then fetchCart (gen s) u s else s)
      in s1\<lparr>mount_user := u, bus := on upd_topic (HandleEvent (gen s) u) (bus s1)\<rparr>)"

text \<open>Its cleanup (lines 56--58): \<open>Emitter.off\<close> of the same closure.\<close>

definition cart_cleanup :: "nav_sys \<Rightarrow> nav_sys" where
  "cart_cleanup s = s\<lparr>bus := off upd_topic (HandleEvent (gen s) (mount_user s)) (bus s)\<rparr>"

text \<open>
  The reply to a pending request (line 45, after the \<open>await\<close>):
  \<open>setCartCount(listCartPay.length)\<close>. React ignores a state update of an
  instance that has been unmounted, so only a reply to the instance that is
  mounted now changes the badge.
\<close>

definition resolve :: "nat \<Rightarrow> nav_sys \<Rightarrow> nav_sys" where
  "resolve i s =
     (if i < length (pending s) then
        (let rq = pending s ! i; s1 = s\<lparr>pending := remove_nth i (pending s)\<rparr>
         in if mounted s \<and> req_gen rq = gen s then s1\<lparr>cartCount := length (req_reply rq)\<rparr> else s1)
      else s)"

definition reject :: "nat \<Rightarrow> nav_sys \<Rightarrow> nav_sys" where
  "reject i s = (if i < length (pending s) then s\<lparr>pending := remove_nth i (pending s)\<rparr> else s)"

text \<open>Running a bus handler: \<open>handleEvent\<close> (lines 50--52) calls \<open>fetchCart\<close>.\<close>

fun run_handler :: "nav_handler \<Rightarrow> nav_sys \<Rightarrow> nav_sys \<times> string option" where
  "run_handler (HandleEvent g u) s = (fetchCart g u s, None)"
| "run_handler (ExtHandler n) s = (s, None)"

definition publish :: "topic \<Rightarrow> nav_sys \<Rightarrow> nav_sys" where
  "publish t s = fst (emit bus run_handler t s)"

text \<open>The badge (line 127): shown only when the count is positive.\<close>

definition badge :: "nav_sys \<Rightarrow> nat option" where
  "badge s = (if mounted s \<and> 0 < cartCount s then Some (cartCount s) else None)"

section \<open>The mobile menu\<close>

text \<open>
  The second effect (lines 61--77) runs after every render that changed
  \<open>isMenuOpen\<close>, with that render's \<open>handleClickOutside\<close>: it adds the
  listener when the menu is open and otherwise removes it (a listener that
  was never added, so nothing happens); its cleanup removes it.
\<close>

definition menu_effect :: "nav_sys \<Rightarrow> nav_sys" where
  "menu_effect s =
     (let r = render s
      in s\<lparr>doc := (if isMenuOpen s then addEventListener r (doc s) else removeEventListener r (doc s)),
           menu_handler := r\<rparr>)"

definition menu_cleanup :: "nav_sys \<Rightarrow> nav_sys" where
  "menu_cleanup s = s\<lparr>doc := removeEventListener (menu_handler s) (doc s)\<rparr>"

text \<open>
  \<open>setIsMenuOpen(b)\<close>: React bails out when the value is unchanged;
  otherwise it renders again, cleans up the previous run of the effect and
  runs it with the new render's closure.
\<close>

definition setIsMenuOpen :: "bool \<Rightarrow> nav_sys \<Rightarrow> nav_sys" where
  "setIsMenuOpen b s =
     (if \<not> mounted s \<or> b = isMenuOpen s then s
      else menu_effect (menu_cleanup (s\<lparr>isMenuOpen := b, render := Suc (render s)\<rparr>)))"

text \<open>\<open>toggleMenu\<close> (lines 34--36).\<close>

definition toggleMenu :: "nav_sys \<Rightarrow> nav_sys" where
  "toggleMenu s = setIsMenuOpen (\<not> isMenuOpen s) s"

text \<open>
  \<open>handleClickOutside\<close> (lines 62--66): \<open>menuRef.current\<close> is set while the
  Navbar is mounted; \<open>outside\<close> says whether the target lies outside the menu.
  A mousedown runs every registered listener in order.
\<close>

definition handleClickOutside :: "bool \<Rightarrow> nav_sys \<Rightarrow> nav_sys" where
  "handleClickOutside outside s = (if mounted s \<and> outside then setIsMenuOpen False s else s)"

definition mouseDown :: "bool \<Rightarrow> nav_sys \<Rightarrow> nav_sys" where
  "mouseDown outside s = fold (\<lambda>_. handleClickOutside outside) (doc s) s"

section \<open>Mounting and the environment\<close>

text \<open>
  Mounting creates a fresh instance (state \<open>cartCount = 0\<close>,
  \<open>isMenuOpen = false\<close>, lines 19--20) and runs both effects in order;
  unmounting runs both cleanups in order.
\<close>

definition mount :: "nav_sys \<Rightarrow> nav_sys" where
  "mount s =
     (if mounted s then s
      else menu_effect (cart_effect (s\<lparr>mounted := True, gen := Suc (gen s), cartCount := 0,
                                      isMenuOpen := False, render := Suc (render s)\<rparr>)))"

definition unmount :: "nav_sys \<Rightarrow> nav_sys" where
  "unmount s = (if mounted s then (menu_cleanup (cart_cleanup s))\<lparr>mounted := False\<rparr> else s)"

datatype nav_event =
    Mount | Unmount | Publish topic | ServerUpdate "user_id option" "card_info list"
  | Resolve nat | Reject nat | ToggleMenu | MouseDown bool | StoreUser "user_info option"
  | ExtOn topic nat | ExtOff topic nat

fun nav_step :: "nav_sys \<Rightarrow> nav_event \<Rightarrow> nav_sys" where
  "nav_step s Mount = mount s"
| "nav_step s Unmount = unmount s"
| "nav_step s (Publish t) = publish t s"
| "nav_step s (ServerUpdate u items) = s\<lparr>server := (server s)(u := items)\<rparr>"
| "nav_step s (Resolve i) = resolve i s"
| "nav_step s (Reject i) = reject i s"
| "nav_step s ToggleMenu = toggleMenu s"
| "nav_step s (MouseDown outside) = mouseDown outside s"
| "nav_step s (StoreUser u) = s\<lparr>store_user := u\<rparr>"
| "nav_step s (ExtOn t n) = s\<lparr>bus := on t (ExtHandler n) (bus s)\<rparr>"
| "nav_step s (ExtOff t n) = s\<lparr>bus := off t (ExtHandler n) (bus s)\<rparr>"

definition nav_run :: "nav_sys \<Rightarrow> nav_event list \<Rightarrow> nav_sys" where
  "nav_run s evs = fold (\<lambda>e s. nav_step s e) evs s"

definition nav_init :: "(topic, nav_handler) emitter \<Rightarrow> (user_id option \<Rightarrow> card_info list)
    \<Rightarrow> user_info option \<Rightarrow> nav_sys" where
  "nav_init b srv u =
     \<lparr>bus = b, server = srv, store_user = u, mounted = False, gen = 0, mount_user = None,
      cartCount = 0, isMenuOpen = False, render = 0, menu_handler = 0, doc = [], pending = []\<rparr>"

inductive nav_reach :: "nav_sys \<Rightarrow> bool" where
  init: "list_all (\<lambda>(_, h). \<not> is_nav h) (listeners b) \<Longrightarrow> nav_reach (nav_init b srv u)"
| step: "nav_reach s \<Longrightarrow> nav_reach (nav_step s e)"

text \<open>The requests a publish issues: one \<open>fetchCart\<close> per \<open>handleEvent\<close> it reaches.\<close>

fun handler_requests :: "(user_id option \<Rightarrow> card_info list) \<Rightarrow> nav_handler list \<Rightarrow> request list" where
  "handler_requests srv [] = []"
| "handler_requests srv (HandleEvent g u # hs) =
     \<lparr>req_gen = g, req_user = u, req_reply = srv u\<rparr> # handler_requests srv hs"
| "handler_requests srv (ExtHandler n # hs) = handler_requests srv hs"

section \<open>The invariant\<close>

text \<open>
  While mounted, the bus holds exactly one subscription of the Navbar (its
  current instance's \<open>handleEvent\<close>) and the document holds the current
  \<open>handleClickOutside\<close> exactly when the menu is open; when unmounted it
  holds none of either. Every pending request comes from an instance that
  has already been mounted.
\<close>

definition nav_subs :: "nav_sys \<Rightarrow> (topic \<times> nav_handler) list" where
  "nav_subs s = filter (\<lambda>(_, h). is_nav h) (listeners (bus s))"

definition nav_inv :: "nav_sys \<Rightarrow> bool" where
  "nav_inv s \<longleftrightarrow>
     nav_subs s = (if mounted s then [(upd_topic, HandleEvent (gen s) (mount_user s))] else [])
   \<and> doc s = (if mounted s \<and> isMenuOpen s then [menu_handler s] else [])
   \<and> list_all (\<lambda>rq. req_gen rq \<le> gen s) (pending s)"

section \<open>Lemmas\<close>

lemma handler_requests_filter: "handler_requests srv (filter is_nav hs) = handler_requests srv hs"
  by (induction srv hs rule: handler_requests.induct) auto

lemma deliver_run_handler:
  "fst (deliver run_handler hs s) = s\<lparr>pending := pending s @ handler_requests (server s) hs\<rparr>"
proof (induction hs arbitrary: s)
  case Nil
  then show ?case by simp
next
  case (Cons h hs)
  then show ?case by (cases h) (simp_all add: fetchCart_def split_def)
qed

lemma publish_eq:
  "publish t s = s\<lparr>pending := pending s @ handler_requests (server s) (handlers_of t (bus s))\<rparr>"
  by (simp add: publish_def emit_def deliver_run_handler)

lemma nav_handlers_of:
  assumes "nav_inv s"
  shows "filter is_nav (handlers_of t (bus s)) =
           (if mounted s \<and> t = upd_topic then [HandleEvent (gen s) (mount_user s)] else [])"
proof -
  have "filter (\<lambda>(_, h). is_nav h) (listeners (bus s)) = nav_subs s"
    by (simp add: nav_subs_def)
  with assms show ?thesis
    by (auto simp: filter_handlers_of nav_inv_def)
qed

lemma publish_upd:
  assumes "nav_inv s"
  shows "publish t s = s\<lparr>pending := pending s @
     (if mounted s \<and> t = upd_topic
      then [\<lparr>req_gen = gen s, req_user = mount_user s, req_reply = server s (mount_user s)\<rparr>] else [])\<rparr>"
proof -
  have "handler_requests (server s) (handlers_of t (bus s))
        = handler_requests (server s) (filter is_nav (handlers_of t (bus s)))"
    by (simp add: handler_requests_filter)
  with assms show ?thesis
    by (simp add: publish_eq nav_handlers_of)
qed

lemma nav_init_inv:
  "list_all (\<lambda>(_, h). \<not> is_nav h) (listeners b) \<Longrightarrow> nav_inv (nav_init b srv u)"
  by (auto simp: nav_inv_def nav_init_def nav_subs_def list_all_iff filter_empty_conv split: prod.splits)

lemma mount_inv: "nav_inv s \<Longrightarrow> nav_inv (mount s)"
  by (auto simp: nav_inv_def mount_def menu_effect_def cart_effect_def fetchCart_def nav_subs_def
      removeEventListener_def Let_def list_all_iff)

lemma unmount_inv: "nav_inv s \<Longrightarrow> nav_inv (unmount s)"
  by (auto simp: nav_inv_def unmount_def menu_cleanup_def cart_cleanup_def nav_subs_def
      removeEventListener_def removeAll_filter_commute [symmetric])

lemma publish_inv: "nav_inv s \<Longrightarrow> nav_inv (publish t s)"
  by (auto simp: publish_upd nav_inv_def nav_subs_def)

lemma setIsMenuOpen_inv: "nav_inv s \<Longrightarrow> nav_inv (setIsMenuOpen b s)"
  by (auto simp: nav_inv_def setIsMenuOpen_def menu_effect_def menu_cleanup_def nav_subs_def
      addEventListener_def removeEventListener_def Let_def)

lemma mouseDown_inv: "nav_inv s \<Longrightarrow> nav_inv (mouseDown outside s)"
  unfolding mouseDown_def
  by (rule fold_invariant [where Q = "\<lambda>_. True"])
     (auto simp: handleClickOutside_def setIsMenuOpen_inv)

lemma resolve_inv: "nav_inv s \<Longrightarrow> nav_inv (resolve i s)"
  by (auto simp: nav_inv_def resolve_def nav_subs_def Let_def list_all_remove_nth)

lemma reject_inv: "nav_inv s \<Longrightarrow> nav_inv (reject i s)"
  by (auto simp: nav_inv_def reject_def nav_subs_def list_all_remove_nth)

lemma nav_step_inv: "nav_inv s \<Longrightarrow> nav_inv (nav_step s e)"
proof (cases e)
  case (ExtOff t n)
  assume "nav_inv s"
  with ExtOff show ?thesis
    by (simp add: nav_inv_def nav_subs_def filter_removeAll_other)
qed (auto simp: mount_inv unmount_inv publish_inv resolve_inv reject_inv toggleMenu_def
       setIsMenuOpen_inv mouseDown_inv, auto simp: nav_inv_def nav_subs_def)

lemma nav_reach_inv: "nav_reach s \<Longrightarrow> nav_inv s"
  by (induction rule: nav_reach.induct) (auto simp: nav_init_inv nav_step_inv)

lemma nav_reach_run: "nav_reach s \<Longrightarrow> nav_reach (nav_run s evs)"
  unfolding nav_run_def
  by (rule fold_invariant [where Q = "\<lambda>_. True"]) (auto intro: nav_reach.step)

lemma nav_reach_init_empty: "nav_reach (nav_init empty_emitter srv u)"
  by (rule nav_reach.init) (simp add: empty_emitter_def)

lemmas nav_defs [model_simps] = nav_run_def nav_init_def mount_def unmount_def cart_effect_def cart_cleanup_def
  menu_effect_def menu_cleanup_def setIsMenuOpen_def toggleMenu_def handleClickOutside_def mouseDown_def
  fetchCart_def resolve_def reject_def publish_eq addEventListener_def removeEventListener_def badge_def Let_def

lemma unmounted_no_nav_listener:
  "nav_inv s \<Longrightarrow> \<not> mounted s \<Longrightarrow> (t, HandleEvent g u) \<notin> set (listeners (bus s))"
  by (auto simp: nav_inv_def nav_subs_def filter_empty_conv)

lemma unmounted_step:
  assumes "nav_inv s" and "\<not> mounted s" and "e \<noteq> Mount"
  shows "\<not> mounted (nav_step s e) \<and> set (pending (nav_step s e)) \<subseteq> set (pending s)"
proof (cases e)
  case (Publish t)
  with assms show ?thesis by (simp add: publish_upd)
next
  case (Resolve i)
  with assms show ?thesis
    using set_remove_nth_subset [of i "pending s"] by (auto simp: resolve_def Let_def)
next
  case (Reject i)
  with assms show ?thesis
    using set_remove_nth_subset [of i "pending s"] by (auto simp: reject_def)
next
  case (MouseDown outside)
  from assms have "doc s = []" by (simp add: nav_inv_def)
  with MouseDown assms show ?thesis by (simp add: mouseDown_def)
qed (use assms in \<open>auto simp: unmount_def toggleMenu_def setIsMenuOpen_def\<close>)

section \<open>Properties\<close>

text \<open>
  C1: In every reachable state, whatever interleaving of mounts, unmounts,
  publishes, clicks and other components' subscriptions came before: while
  the Navbar is mounted the bus holds exactly one of its subscriptions, the
  current instance's \<open>handleEvent\<close> on \<open>updateCartNumber\<close>, and once it is
  unmounted it holds none (repeated mount/unmount cycles leave no residual
  listener); and the document holds the Navbar's \<open>mousedown\<close> listener
  exactly while the Navbar is mounted with its menu open, and then only the
  current render's one.
\<close>

theorem nav_single_subscription:
  "nav_reach s \<Longrightarrow> filter (\<lambda>(_, h). is_nav h) (listeners (bus s))
     = (if mounted s then [(upd_topic, HandleEvent (gen s) (mount_user s))] else [])
   \<and> doc s = (if mounted s \<and> isMenuOpen s then [menu_handler s] else [])"
  using nav_reach_inv [of s] by (simp add: nav_inv_def nav_subs_def)

theorem nav_single_subscription_witness:
  "let s = nav_run (nav_init empty_emitter (\<lambda>_. []) None) [Mount, Unmount, Mount, ToggleMenu]
   in nav_reach s \<and> filter (\<lambda>(_, h). is_nav h) (listeners (bus s)) = [(upd_topic, HandleEvent 2 None)]
      \<and> doc s = [3]"
proof -
  let ?s = "nav_run (nav_init empty_emitter (\<lambda>_. []) None) [Mount, Unmount, Mount, ToggleMenu]"
  have r: "nav_reach ?s" by (rule nav_reach_run [OF nav_reach_init_empty])
  have m: "mounted ?s" and o: "isMenuOpen ?s" and g: "gen ?s = 2" and u: "mount_user ?s = None"
    and h: "menu_handler ?s = 3"
    by (simp_all add: nav_defs)
  show ?thesis
    using r m o g u h nav_single_subscription [OF r] by (simp add: Let_def)
qed

text \<open>
  C9: With the menu open, a mousedown outside it closes the menu and leaves no
  listener on the document; a mousedown inside changes nothing.
\<close>

theorem nav_click_outside_closes:
  assumes "nav_reach s" and "mounted s" and "isMenuOpen s"
  shows "\<not> isMenuOpen (nav_step s (MouseDown True)) \<and> doc (nav_step s (MouseDown True)) = []
         \<and> nav_step s (MouseDown False) = s"
proof -
  from assms have d: "doc s = [menu_handler s]"
    using nav_reach_inv [of s] by (simp add: nav_inv_def)
  with assms show ?thesis
    by (simp add: mouseDown_def handleClickOutside_def setIsMenuOpen_def menu_effect_def
        menu_cleanup_def removeEventListener_def Let_def)
qed

theorem nav_click_outside_closes_witness:
  "let s = nav_run (nav_init empty_emitter (\<lambda>_. []) None) [Mount, ToggleMenu]
   in nav_reach s \<and> mounted s \<and> isMenuOpen s \<and> \<not> isMenuOpen (nav_step s (MouseDown True))"
proof -
  let ?s = "nav_run (nav_init empty_emitter (\<lambda>_. []) None) [Mount, ToggleMenu]"
  have r: "nav_reach ?s" by (rule nav_reach_run [OF nav_reach_init_empty])
  have m: "mounted ?s" and o: "isMenuOpen ?s" by (simp_all add: nav_defs)
  show ?thesis
    using r m o nav_click_outside_closes [OF r m o] by (simp add: Let_def)
qed

text \<open>
  C2: A publish of \<open>updateCartNumber\<close> reaches the mounted Navbar exactly once:
  it issues one \<open>getCartByUser\<close> for the user captured at mount, answered with
  the backend's current cart, and changes nothing else; a publish on another
  topic, or while unmounted, changes nothing.
\<close>

theorem nav_publish_fetch:
  "nav_reach s \<Longrightarrow> nav_step s (Publish t) = s\<lparr>pending := pending s @
     (if mounted s \<and> t = upd_topic
      then [\<lparr>req_gen = gen s, req_user = mount_user s, req_reply = server s (mount_user s)\<rparr>] else [])\<rparr>"
  by (simp add: publish_upd nav_reach_inv)

theorem nav_publish_fetch_witness:
  "let s = nav_run (nav_init empty_emitter ((\<lambda>_. [])(Some 7 := [tea])) (Some alice)) [Mount]
   in nav_reach s \<and> map req_reply (pending (nav_step s (Publish upd_topic))) = [[tea], [tea]]"
proof -
  let ?s = "nav_run (nav_init empty_emitter ((\<lambda>_. [])(Some 7 := [tea])) (Some alice)) [Mount]"
  have r: "nav_reach ?s" by (rule nav_reach_run [OF nav_reach_init_empty])
  show ?thesis
    using r nav_publish_fetch [OF r, of upd_topic] by (simp add: nav_defs alice_def Let_def)
qed

text \<open>
  C5: A reply to the mounted instance's request sets the count to the number of
  lines of the reply (\<open>listCartPay.length\<close>, not the sum of quantities) and takes the request off the queue.
\<close>

theorem nav_resolve_count:
  assumes "i < length (pending s)" and "mounted s" and "req_gen (pending s ! i) = gen s"
  shows "cartCount (nav_step s (Resolve i)) = length (req_reply (pending s ! i))
         \<and> pending (nav_step s (Resolve i)) = remove_nth i (pending s)"
  using assms by (simp add: resolve_def Let_def)

theorem nav_resolve_count_witness:
  "let s = nav_run (nav_init empty_emitter ((\<lambda>_. [])(Some 7 := [tea, matcha])) (Some alice)) [Mount]
   in 0 < length (pending s) \<and> mounted s \<and> req_gen (pending s ! 0) = gen s
      \<and> cartCount (nav_step s (Resolve 0)) = 2"
proof -
  let ?s = "nav_run (nav_init empty_emitter ((\<lambda>_. [])(Some 7 := [tea, matcha])) (Some alice)) [Mount]"
  have a: "0 < length (pending ?s)" and b: "mounted ?s" and c: "req_gen (pending ?s ! 0) = gen ?s"
    by (simp_all add: nav_defs alice_def)
  have d: "req_reply (pending ?s ! 0) = [tea, matcha]"
    by (simp add: nav_defs alice_def)
  show ?thesis
    using a b c d nav_resolve_count [OF a b c] by (simp add: Let_def)
qed

text \<open>
  C6: A reply to a request of an unmounted or earlier instance never changes the
  count.
\<close>

theorem nav_resolve_stale:
  "\<not> (mounted s \<and> req_gen (pending s ! i) = gen s) \<Longrightarrow> cartCount (nav_step s (Resolve i)) = cartCount s"
  by (auto simp: resolve_def Let_def)

theorem nav_resolve_stale_witness:
  "let s = nav_run (nav_init empty_emitter ((\<lambda>_. [])(Some 7 := [tea])) (Some alice)) [Mount, Unmount, Mount]
   in \<not> (mounted s \<and> req_gen (pending s ! 0) = gen s) \<and> cartCount (nav_step s (Resolve 0)) = 0"
proof -
  let ?s = "nav_run (nav_init empty_emitter ((\<lambda>_. [])(Some 7 := [tea])) (Some alice)) [Mount, Unmount, Mount]"
  have a: "\<not> (mounted ?s \<and> req_gen (pending ?s ! 0) = gen ?s)" and b: "cartCount ?s = 0"
    by (simp_all add: nav_defs alice_def)
  show ?thesis
    using a b nav_resolve_stale [OF a] by (simp add: Let_def)
qed

text \<open>
  C7: A failed request leaves the count and the badge as they were (the previous
  value stays displayed) and only leaves the queue.
\<close>

theorem nav_reject_keeps:
  "cartCount (nav_step s (Reject i)) = cartCount s \<and> badge (nav_step s (Reject i)) = badge s
   \<and> (i < length (pending s) \<longrightarrow> pending (nav_step s (Reject i)) = remove_nth i (pending s))"
  by (simp add: reject_def badge_def)

theorem nav_reject_keeps_witness:
  "let s = nav_run (nav_init empty_emitter ((\<lambda>_. [])(Some 7 := [tea])) (Some alice)) [Mount]
   in 0 < length (pending s) \<and> pending (nav_step s (Reject 0)) = [] \<and> cartCount (nav_step s (Reject 0)) = 0"
proof -
  let ?s = "nav_run (nav_init empty_emitter ((\<lambda>_. [])(Some 7 := [tea])) (Some alice)) [Mount]"
  have a: "0 < length (pending ?s)" and b: "remove_nth 0 (pending ?s) = []" and c: "cartCount ?s = 0"
    by (simp_all add: nav_defs alice_def remove_nth_def)
  show ?thesis
    using a b c nav_reject_keeps [of ?s 0] by (simp add: Let_def)
qed

text \<open>
  C3: After a cart-changed publish, once the request it issued is answered, the
  badge shows the number of lines of the backend's cart (nothing when it is
  empty).
\<close>

theorem nav_refresh_fresh:
  assumes "nav_reach s" and "mounted s"
  shows "cartCount (nav_run s [Publish upd_topic, Resolve (length (pending s))]) = length (server s (mount_user s))
       \<and> badge (nav_run s [Publish upd_topic, Resolve (length (pending s))])
           = (if server s (mount_user s) = [] then None else Some (length (server s (mount_user s))))"
  using assms by (simp add: nav_run_def publish_upd nav_reach_inv resolve_def badge_def nth_append)

theorem nav_refresh_fresh_witness:
  "let s = nav_run (nav_init empty_emitter ((\<lambda>_. [])(Some 7 := [tea, matcha])) (Some alice)) [Mount]
   in nav_reach s \<and> mounted s \<and> badge (nav_run s [Publish upd_topic, Resolve (length (pending s))]) = Some 2"
proof -
  let ?s = "nav_run (nav_init empty_emitter ((\<lambda>_. [])(Some 7 := [tea, matcha])) (Some alice)) [Mount]"
  have r: "nav_reach ?s" by (rule nav_reach_run [OF nav_reach_init_empty])
  have m: "mounted ?s" and u: "server ?s (mount_user ?s) = [tea, matcha]"
    by (simp_all add: nav_defs alice_def)
  show ?thesis
    using r m u nav_refresh_fresh [OF r m] by (simp add: Let_def)
qed

text \<open>
  C11: Once the Navbar is unmounted, no sequence of events without a remount
  (publishes included) issues a new cart request: its unsubscribed handler
  is never reached again.
\<close>

theorem nav_unmounted_quiet:
  "nav_reach s \<Longrightarrow> \<not> mounted s \<Longrightarrow> Mount \<notin> set evs \<Longrightarrow> set (pending (nav_run s evs)) \<subseteq> set (pending s)"
proof (induction evs arbitrary: s)
  case Nil
  then show ?case by (simp add: nav_run_def)
next
  case (Cons e evs)
  have inv: "nav_inv s" using Cons.prems(1) by (rule nav_reach_inv)
  have e: "e \<noteq> Mount" using Cons.prems(3) by auto
  have r: "nav_reach (nav_step s e)" using Cons.prems(1) by (rule nav_reach.step)
  from unmounted_step [OF inv Cons.prems(2) e]
  have m: "\<not> mounted (nav_step s e)" and p: "set (pending (nav_step s e)) \<subseteq> set (pending s)"
    by simp_all
  have "set (pending (nav_run (nav_step s e) evs)) \<subseteq> set (pending (nav_step s e))"
    using Cons.IH [OF r m] Cons.prems(3) by simp
  with p show ?case by (simp add: nav_run_def)
qed

text \<open>
  C10: Mounting the Navbar and unmounting it again leaves the event bus and the
  document's listeners exactly as they were: no residual subscription.
\<close>

theorem nav_mount_unmount_roundtrip:
  assumes "nav_reach s" and "\<not> mounted s"
  shows "bus (nav_run s [Mount, Unmount]) = bus s \<and> doc (nav_run s [Mount, Unmount]) = doc s"
proof -
  have inv: "nav_inv s" using assms(1) by (rule nav_reach_inv)
  then have d: "doc s = []" using assms(2) by (simp add: nav_inv_def)
  let ?h = "HandleEvent (Suc (gen s)) (map_option uid (store_user s))"
  have "(upd_topic, ?h) \<notin> set (listeners (bus s))"
    using unmounted_no_nav_listener [OF inv assms(2)] .
  then have b: "off upd_topic ?h (on upd_topic ?h (bus s)) = bus s"
    by (rule off_on_roundtrip)
  show ?thesis
  proof (cases "store_user s")
    case None
    with assms(2) d b show ?thesis
      by (simp add: nav_run_def mount_def unmount_def cart_effect_def cart_cleanup_def
          menu_effect_def menu_cleanup_def removeEventListener_def Let_def)
  next
    case (Some v)
    with assms(2) d b show ?thesis
      by (simp add: nav_run_def mount_def unmount_def cart_effect_def cart_cleanup_def fetchCart_def
          menu_effect_def menu_cleanup_def removeEventListener_def Let_def)
  qed
qed
theorem nav_unmounted_quiet_witness:
  "let s = nav_run (nav_init empty_emitter ((\<lambda>_. [])(Some 7 := [tea])) (Some alice)) [Mount, Unmount]
   in nav_reach s \<and> \<not> mounted s \<and> Mount \<notin> set [Publish upd_topic, ToggleMenu]
      \<and> set (pending (nav_run s [Publish upd_topic, ToggleMenu])) \<subseteq> set (pending s)
      \<and> length (pending s) = 1"
proof -
  let ?s = "nav_run (nav_init empty_emitter ((\<lambda>_. [])(Some 7 := [tea])) (Some alice)) [Mount, Unmount]"
  have r: "nav_reach ?s" by (rule nav_reach_run [OF nav_reach_init_empty])
  have m: "\<not> mounted ?s" and l: "length (pending ?s) = 1"
    by (simp_all add: nav_defs alice_def)
  have e: "Mount \<notin> set [Publish upd_topic, ToggleMenu]" by simp
  show ?thesis
    using r m l e nav_unmounted_quiet [OF r m e] by (simp add: Let_def)
qed

theorem nav_mount_unmount_roundtrip_witness:
  "let s = nav_init (on ''other'' (ExtHandler 3) empty_emitter) (\<lambda>_. []) (Some alice)
   in nav_reach s \<and> \<not> mounted s \<and> bus (nav_run s [Mount, Unmount]) = on ''other'' (ExtHandler 3) empty_emitter"
proof -
  let ?s = "nav_init (on ''other'' (ExtHandler 3) empty_emitter) (\<lambda>_. []) (Some alice)"
  have r: "nav_reach ?s" by (rule nav_reach.init) (simp add: empty_emitter_def)
  have m: "\<not> mounted ?s" by (simp add: nav_init_def)
  have b: "bus ?s = on ''other'' (ExtHandler 3) empty_emitter" by (simp add: nav_init_def)
  show ?thesis
    using r m b nav_mount_unmount_roundtrip [OF r m] by (simp add: Let_def)
qed

end
