(* ===== verification/Routes.thy ===== *)
theory Routes
  imports Prelude
begin

text \<open>
  The route table of \<open>fe/src/routes/index.ts\<close> and the links the Navbar
  renders from it (\<open>Navbar.tsx\<close>, desktop lines 89--119, mobile lines
  182--200). \<open>config.routes\<close> (the path strings) is not among the sources,
  so a route is identified by its key in that object; pages and layouts are
  the imported components, as constructors.
\<close>

datatype route_key =
    RHome | RLogin | RSignup | RProduct | RContact | RCart | RLive | RStream | RThank
  | RForgotPass | RResetPass | RProducDetail | RPageNotFound

datatype page =
    Home | LoginPage | SignUpPage | Product | Contact | CartPage | Watch | Live | ThankYou
  | ForgotPassword | ResetPassword | ProductDetail | PageNotFound

datatype layout = DefaultLayout | SimpleHeaderLayout

record route =
  path :: route_key
  component :: page
  layout :: "layout option"

text \<open>\<open>publicRoutes\<close> and \<open>privateRoutes\<close> (lines 18--50).\<close>

definition publicRoutes :: "route list" where
  "publicRoutes =
     [\<lparr>path = RHome, component = Home, layout = Some DefaultLayout\<rparr>,
      \<lparr>path = RLogin, component = LoginPage, layout = Some DefaultLayout\<rparr>,
      \<lparr>path = RSignup, component = SignUpPage, layout = Some SimpleHeaderLayout\<rparr>,
      \<lparr>path = RProduct, component = Product, layout = Some DefaultLayout\<rparr>,
      \<lparr>path = RContact, component = Contact, layout = Some DefaultLayout\<rparr>,
      \<lparr>path = RCart, component = CartPage, layout = Some DefaultLayout\<rparr>,
      \<lparr>path = RLive, component = Watch, layout = Some DefaultLayout\<rparr>,
      \<lparr>path = RStream, component = Live, layout = Some DefaultLayout\<rparr>,
      \<lparr>path = RThank, component = ThankYou, layout = Some DefaultLayout\<rparr>,
      \<lparr>path = RForgotPass, component = ForgotPassword, layout = Some DefaultLayout\<rparr>,
      \<lparr>path = RResetPass, component = ResetPassword, layout = Some DefaultLayout\<rparr>,
      \<lparr>path = RProducDetail, component = ProductDetail, layout = Some DefaultLayout\<rparr>,
      \<lparr>path = RPageNotFound, component = PageNotFound, layout = None\<rparr>]"

definition privateRoutes :: "route list" where
  "privateRoutes = []"

text \<open>The router matches the first route whose path is the URL's.\<close>

definition lookup_route :: "route_key \<Rightarrow> route option" where
  "lookup_route k = find (\<lambda>r. path r = k) (publicRoutes @ privateRoutes)"

text \<open>The Navbar's links: home, products, contact, live, on both menus.\<close>

definition nav_links :: "route_key list" where
  "nav_links = [RHome, RProduct, RContact, RLive]"

definition mobile_links :: "route_key list" where
  "mobile_links = [RHome, RProduct, RContact, RLive]"

section \<open>Properties\<close>

end
