(* ===== verification/NavbarView.thy ===== *)
theory NavbarView
  imports Navbar Routes
begin

text \<open>
  What the Navbar renders (\<open>Navbar.tsx\<close> lines 79--222) and what a click on
  each rendered element does. The render reads three inputs besides the
  component's state: \<open>localStorage.getItem("user")\<close> (line 22, the login
  control), \<open>i18n.language\<close> (line 144, the language select) and the route
  table (the links). A tap on an element is the browser's \<open>mousedown\<close>
  followed by its \<open>click\<close>: the \<open>mousedown\<close> reaches the document listener
  first (\<open>handleClickOutside\<close>), with the target outside \<open>menuRef\<close> exactly
  when the element is not inside the mobile menu; React commits the update
  of that discrete event before the \<open>click\<close> handler runs, so the handler is
  the one of the new render.
\<close>

section \<open>The language select\<close>



section \<open>The rendered elements\<close>

datatype link_target = ToRoute route_key | ToPath string

datatype nav_elem =
    LogoLink | Placeholder | DeskLink route_key | CartLink "nat option"
  | LogoutButton | LoginLink | LangSelect "string option" | MenuButton bool
  | MobileMenu bool "nav_elem list"
  | MobileLogo | MobileLink route_key | MobileLogout | MobileLogin


section \<open>Clicks\<close>

datatype nav_outcome = Go link_target | CallLogout | Stay

text \<open>
  Each element's \<open>onClick\<close> and link target: the logo goes to \<open>"/"\<close>, the
  cart to \<open>"/cart"\<close>, login to \<open>"/login"\<close>; logout calls \<open>logoutUser\<close>; the
  menu button, the mobile logo and the mobile links call \<open>toggleMenu\<close>
  (lines 151, 170, 182--198); the mobile logout and login do not.
\<close>

fun on_click :: "nav_elem \<Rightarrow> nav_sys \<Rightarrow> nav_sys \<times> nav_outcome" where
  "on_click LogoLink s = (s, Go (ToPath ''/''))"
| "on_click Placeholder s = (s, Stay)"
| "on_click (DeskLink k) s = (s, Go (ToRoute k))"
| "on_click (CartLink _) s = (s, Go (ToPath ''/cart''))"
| "on_click LogoutButton s = (s, CallLogout)"
| "on_click LoginLink s = (s, Go (ToPath ''/login''))"
| "on_click (LangSelect _) s = (s, Stay)"
| "on_click (MenuButton _) s = (toggleMenu s, Stay)"
| "on_click (MobileMenu _ _) s = (s, Stay)"
| "on_click MobileLogo s = (toggleMenu s, Go (ToPath ''/''))"
| "on_click (MobileLink k) s = (toggleMenu s, Go (ToRoute k))"
| "on_click MobileLogout s = (s, CallLogout)"
| "on_click MobileLogin s = (s, Go (ToPath ''/login''))"

fun in_menu :: "nav_elem \<Rightarrow> bool" where
  "in_menu (MobileMenu _ _) = True"
| "in_menu MobileLogo = True"
| "in_menu (MobileLink _) = True"
| "in_menu MobileLogout = True"
| "in_menu MobileLogin = True"
| "in_menu _ = False"

definition tap :: "nav_elem \<Rightarrow> nav_sys \<Rightarrow> nav_sys \<times> nav_outcome" where
  "tap e s = on_click e (mouseDown (\<not> in_menu e) s)"

section \<open>Lemmas\<close>

lemma mouseDown_inside: "mouseDown False s = s"
proof -
  have "fold (\<lambda>_. handleClickOutside False) xs s = s" for xs
    by (induction xs) (simp_all add: handleClickOutside_def)
  then show ?thesis by (simp add: mouseDown_def)
qed

lemma mouseDown_outside_open:
  "nav_inv s \<Longrightarrow> mounted s \<Longrightarrow> isMenuOpen s \<Longrightarrow> mouseDown True s = setIsMenuOpen False s"
  by (simp add: nav_inv_def mouseDown_def handleClickOutside_def)

lemma close_menu:
  "nav_inv s \<Longrightarrow> mounted s \<Longrightarrow> isMenuOpen s \<Longrightarrow>
   \<not> isMenuOpen (setIsMenuOpen False s) \<and> doc (setIsMenuOpen False s) = []
   \<and> mounted (setIsMenuOpen False s) \<and> render (setIsMenuOpen False s) = Suc (render s)"
  by (simp add: nav_inv_def setIsMenuOpen_def menu_effect_def menu_cleanup_def
      removeEventListener_def Let_def)

lemma open_menu:
  "nav_inv s \<Longrightarrow> mounted s \<Longrightarrow> \<not> isMenuOpen s \<Longrightarrow>
   isMenuOpen (setIsMenuOpen True s) \<and> doc (setIsMenuOpen True s) = [render (setIsMenuOpen True s)]
   \<and> render (setIsMenuOpen True s) = Suc (render s)"
  by (simp add: nav_inv_def setIsMenuOpen_def menu_effect_def menu_cleanup_def
      addEventListener_def removeEventListener_def Let_def)

lemma mobile_links_routes: "k \<in> set mobile_links \<Longrightarrow> lookup_route k \<noteq> None"
  by (auto simp: mobile_links_def lookup_route_def publicRoutes_def)

section \<open>Properties\<close>


text \<open>
  C18: With the mobile menu open, tapping one of its links navigates to a
  route of the table, closes the menu and leaves no listener on the
  document; tapping its login link leaves the menu open.
\<close>

theorem nav_mobile_link_closes:
  assumes "nav_reach s" and "mounted s" and "isMenuOpen s" and "k \<in> set mobile_links"
  shows "\<not> isMenuOpen (fst (tap (MobileLink k) s)) \<and> doc (fst (tap (MobileLink k) s)) = []
         \<and> snd (tap (MobileLink k) s) = Go (ToRoute k) \<and> lookup_route k \<noteq> None
         \<and> isMenuOpen (fst (tap MobileLogin s))"
proof -
  have i: "nav_inv s" using assms(1) by (rule nav_reach_inv)
  show ?thesis
    using close_menu [OF i assms(2,3)] mobile_links_routes [OF assms(4)] assms(3)
    by (simp add: tap_def mouseDown_inside toggleMenu_def)
qed

text \<open>
  C19: With the mobile menu open, a tap on the menu button does not close
  it: the \<open>mousedown\<close>, outside the menu, closes it through
  \<open>handleClickOutside\<close>, and the \<open>click\<close> that follows runs the new render's
  \<open>toggleMenu\<close>, which opens it again, with a fresh listener.
\<close>

theorem nav_close_button_reopens:
  assumes "nav_reach s" and "mounted s" and "isMenuOpen s"
  shows "isMenuOpen (fst (tap (MenuButton True) s))
         \<and> render (fst (tap (MenuButton True) s)) = render s + 2
         \<and> doc (fst (tap (MenuButton True) s)) = [render s + 2]"
proof -
  have i: "nav_inv s" using assms(1) by (rule nav_reach_inv)
  let ?c = "setIsMenuOpen False s"
  have c: "\<not> isMenuOpen ?c" "doc ?c = []" "mounted ?c" "render ?c = Suc (render s)"
    using close_menu [OF i assms(2,3)] by simp_all
  have ic: "nav_inv ?c" using i by (rule setIsMenuOpen_inv)
  show ?thesis
    using open_menu [OF ic c(3) c(1)] c(4) mouseDown_outside_open [OF i assms(2,3)] c(1)
    by (simp add: tap_def toggleMenu_def)
qed

theorem nav_mobile_link_closes_witness:
  "let s = nav_run (nav_init empty_emitter (\<lambda>_. []) None) [Mount, ToggleMenu]
   in nav_reach s \<and> mounted s \<and> isMenuOpen s \<and> RLive \<in> set mobile_links
      \<and> snd (tap (MobileLink RLive) s) = Go (ToRoute RLive) \<and> \<not> isMenuOpen (fst (tap (MobileLink RLive) s))"
proof -
  let ?s = "nav_run (nav_init empty_emitter (\<lambda>_. []) None) [Mount, ToggleMenu]"
  have r: "nav_reach ?s" by (rule nav_reach_run [OF nav_reach_init_empty])
  have m: "mounted ?s" and o: "isMenuOpen ?s" by (simp_all add: nav_defs)
  have k: "RLive \<in> set mobile_links" by (simp add: mobile_links_def)
  show ?thesis using r m o k nav_mobile_link_closes [OF r m o k] by (simp add: Let_def)
qed

theorem nav_close_button_reopens_witness:
  "let s = nav_run (nav_init empty_emitter (\<lambda>_. []) None) [Mount, ToggleMenu]
   in nav_reach s \<and> mounted s \<and> isMenuOpen s \<and> isMenuOpen (fst (tap (MenuButton True) s))"
proof -
  let ?s = "nav_run (nav_init empty_emitter (\<lambda>_. []) None) [Mount, ToggleMenu]"
  have r: "nav_reach ?s" by (rule nav_reach_run [OF nav_reach_init_empty])
  have m: "mounted ?s" and o: "isMenuOpen ?s" by (simp_all add: nav_defs)
  show ?thesis using r m o nav_close_button_reopens [OF r m o] by (simp add: Let_def)
qed

end
