(* ===== verification/CartSyncSpec.thy ===== *)
theory CartSyncSpec
  imports CartRequests
begin

text \<open>
  The Cart Synchronizer of spec \<section>4.2 and \<section>7 as an abstract machine, and the
  Navbar as a refinement of it. The abstract state is what the contract
  talks about: the count shown, the snapshots requested and not yet
  answered (in request order), and the backend's cart for the user.
  \<open>refresh\<close> requests a snapshot of the current cart; a successful reply
  shows the count of the oldest requested snapshot; a failure leaves the
  previous count displayed. The Navbar refines it for runs in which replies
  arrive in the order the requests were issued and the instance stays
  mounted: each concrete event maps to one abstract event (or to none), and
  the abstraction of the concrete state steps with it.

  Two choices of the abstract machine follow the code where the spec
  leaves room or disagrees. The count is the number of snapshot lines: the
  spec's data model leaves the metric open, and its example in \<section>8
  expects the sum of quantities, a divergence recorded apart. There is no
  rule for a refresh without a user, the empty snapshot of \<section>4.2: a
  mounted Navbar always fetches for the user it captured at mount, which
  may be none.
\<close>

record sync_abs =
  a_count :: nat
  a_inflight :: "card_info list list"
  a_cart :: "card_info list"

datatype sync_event = ARefresh | AArrive | AFail | AChange "card_info list" | ANone

fun sync_step :: "sync_abs \<Rightarrow> sync_event \<Rightarrow> sync_abs" where
  "sync_step a ARefresh = a\<lparr>a_inflight := a_inflight a @ [a_cart a]\<rparr>"
| "sync_step a AArrive =
     (case a_inflight a of [] \<Rightarrow> a | r # rs \<Rightarrow> a\<lparr>a_count := length r, a_inflight := rs\<rparr>)"
| "sync_step a AFail = a\<lparr>a_inflight := drop 1 (a_inflight a)\<rparr>"
| "sync_step a (AChange c) = a\<lparr>a_cart := c\<rparr>"
| "sync_step a ANone = a"

definition sync_run :: "sync_abs \<Rightarrow> sync_event list \<Rightarrow> sync_abs" where
  "sync_run a es = fold (\<lambda>e a. sync_step a e) es a"

text \<open>The abstraction of a Navbar state and of its events.\<close>

definition sync_abs_of :: "nav_sys \<Rightarrow> sync_abs" where
  "sync_abs_of s =
     \<lparr>a_count = cartCount s, a_inflight = map req_reply (pending s), a_cart = server s (mount_user s)\<rparr>"

fun fifo_event :: "nav_event \<Rightarrow> bool" where
  "fifo_event Mount = False"
| "fifo_event Unmount = False"
| "fifo_event (Resolve i) = (i = 0)"
| "fifo_event (Reject i) = (i = 0)"
| "fifo_event _ = True"

fun abs_event :: "user_id option \<Rightarrow> nav_event \<Rightarrow> sync_event" where
  "abs_event u (Publish t) = (if t = upd_topic then ARefresh else ANone)"
| "abs_event u (ServerUpdate v items) = (if v = u then AChange items else ANone)"
| "abs_event u (Resolve _) = AArrive"
| "abs_event u (Reject _) = AFail"
| "abs_event u _ = ANone"

definition current_requests :: "nav_sys \<Rightarrow> bool" where
  "current_requests s \<longleftrightarrow> mounted s \<and> list_all (\<lambda>r. req_gen r = gen s) (pending s)"

section \<open>Lemmas\<close>

lemma setIsMenuOpen_frame:
  "cartCount (setIsMenuOpen b s) = cartCount s \<and> pending (setIsMenuOpen b s) = pending s
   \<and> server (setIsMenuOpen b s) = server s \<and> mount_user (setIsMenuOpen b s) = mount_user s
   \<and> mounted (setIsMenuOpen b s) = mounted s \<and> gen (setIsMenuOpen b s) = gen s"
  by (simp add: setIsMenuOpen_def menu_effect_def menu_cleanup_def Let_def)

lemma mouseDown_frame:
  "cartCount (mouseDown outside s) = cartCount s \<and> pending (mouseDown outside s) = pending s
   \<and> server (mouseDown outside s) = server s \<and> mount_user (mouseDown outside s) = mount_user s
   \<and> mounted (mouseDown outside s) = mounted s \<and> gen (mouseDown outside s) = gen s"
proof -
  have "cartCount (fold (\<lambda>_. handleClickOutside outside) xs s) = cartCount s
        \<and> pending (fold (\<lambda>_. handleClickOutside outside) xs s) = pending s
        \<and> server (fold (\<lambda>_. handleClickOutside outside) xs s) = server s
        \<and> mount_user (fold (\<lambda>_. handleClickOutside outside) xs s) = mount_user s
        \<and> mounted (fold (\<lambda>_. handleClickOutside outside) xs s) = mounted s
        \<and> gen (fold (\<lambda>_. handleClickOutside outside) xs s) = gen s" for xs
    by (induction xs arbitrary: s) (simp_all add: handleClickOutside_def setIsMenuOpen_frame)
  then show ?thesis by (simp add: mouseDown_def)
qed

text \<open>
  Every in-order event but a reply steps with its abstract event; replies
  are handled in the refinement proof itself.
\<close>

lemma fifo_step_refines:
  assumes "nav_inv s" and "current_requests s" and "fifo_event e" and "\<forall>i. e \<noteq> Resolve i"
  shows "sync_abs_of (nav_step s e) = sync_step (sync_abs_of s) (abs_event (mount_user s) e)
         \<and> current_requests (nav_step s e) \<and> mount_user (nav_step s e) = mount_user s"
proof (cases e)
  case (Publish t)
  with assms show ?thesis
    by (simp add: publish_upd sync_abs_of_def current_requests_def)
next
  case (ServerUpdate v items)
  with assms show ?thesis by (auto simp: sync_abs_of_def current_requests_def)
next
  case (Reject i)
  with assms show ?thesis
    by (cases "pending s") (simp_all add: reject_def sync_abs_of_def current_requests_def remove_nth_def)
next
  case ToggleMenu
  with assms show ?thesis
    by (simp add: toggleMenu_def setIsMenuOpen_frame sync_abs_of_def current_requests_def)
next
  case (MouseDown outside)
  with assms show ?thesis by (simp add: mouseDown_frame sync_abs_of_def current_requests_def)
qed (use assms in \<open>simp_all add: sync_abs_of_def current_requests_def\<close>)

section \<open>Properties\<close>

text \<open>
  C4: The Navbar refines the spec's Cart Synchronizer on runs where replies
  arrive in request order: from a reachable state whose in-flight requests
  all belong to the mounted instance, the abstraction of the state after
  any sequence of such events (publishes, backend changes, oldest reply or
  failure, clicks, store and bus changes) is the abstract machine run on the
  mapped events. So the badge shows the count of the latest answered
  snapshot, a failure keeps the previous count, and each
  \<open>updateCartNumber\<close> publish requests exactly one snapshot of the user's
  current cart.
\<close>

theorem nav_refines_sync:
  assumes "nav_reach s" and "current_requests s" and "list_all fifo_event evs"
  shows "sync_abs_of (nav_run s evs) = sync_run (sync_abs_of s) (map (abs_event (mount_user s)) evs)"
  using assms
proof (induction evs arbitrary: s)
  case Nil
  then show ?case by (simp add: nav_run_def sync_run_def)
next
  case (Cons e evs)
  have r: "nav_reach (nav_step s e)" using Cons.prems(1) by (rule nav_reach.step)
  have "sync_abs_of (nav_step s e) = sync_step (sync_abs_of s) (abs_event (mount_user s) e)
        \<and> current_requests (nav_step s e) \<and> mount_user (nav_step s e) = mount_user s"
  proof (cases "\<exists>i. e = Resolve i")
    case True
    with Cons.prems(3) have e: "e = Resolve 0" by auto
    show ?thesis
      using Cons.prems(2) unfolding e
      by (cases "pending s") (simp_all add: resolve_def sync_abs_of_def current_requests_def remove_nth_def)
  next
    case False
    then show ?thesis
      using fifo_step_refines [OF nav_reach_inv [OF Cons.prems(1)] Cons.prems(2)] Cons.prems(3) by simp
  qed
  then have st: "sync_abs_of (nav_step s e) = sync_step (sync_abs_of s) (abs_event (mount_user s) e)"
    and c: "current_requests (nav_step s e)" and u: "mount_user (nav_step s e) = mount_user s"
    by simp_all
  have "sync_abs_of (nav_run (nav_step s e) evs)
        = sync_run (sync_abs_of (nav_step s e)) (map (abs_event (mount_user s)) evs)"
    using Cons.IH [OF r c] Cons.prems(3) u by simp
  with st show ?case by (simp add: nav_run_def sync_run_def)
qed

theorem nav_refines_sync_witness:
  "let s = nav_run (nav_init empty_emitter ((\<lambda>_. [])(Some 7 := [tea])) (Some alice)) [Mount];
       evs = [ServerUpdate (Some 7) [tea, matcha], Publish upd_topic, Resolve 0, Resolve 0]
   in nav_reach s \<and> current_requests s \<and> list_all fifo_event evs
      \<and> sync_abs_of (nav_run s evs) = \<lparr>a_count = 2, a_inflight = [], a_cart = [tea, matcha]\<rparr>"
proof -
  let ?s = "nav_run (nav_init empty_emitter ((\<lambda>_. [])(Some 7 := [tea])) (Some alice)) [Mount]"
  let ?evs = "[ServerUpdate (Some 7) [tea, matcha], Publish upd_topic, Resolve 0, Resolve 0]"
  have r: "nav_reach ?s" by (rule nav_reach_run [OF nav_reach_init_empty])
  have c: "current_requests ?s" by (simp add: nav_defs alice_def current_requests_def)
  have f: "list_all fifo_event ?evs" by simp
  have a: "sync_abs_of ?s = \<lparr>a_count = 0, a_inflight = [[tea]], a_cart = [tea]\<rparr>"
    and u: "mount_user ?s = Some 7"
    by (simp_all add: nav_defs alice_def sync_abs_of_def)
  show ?thesis
    using r c f a u nav_refines_sync [OF r c f] by (simp add: sync_run_def Let_def)
qed

end
