(* ===== verification/LiveSession.thy ===== *)
theory LiveSession
  imports Prelude "HOL-Library.Multiset"
begin

text \<open>
  The live session as the speaker sees it: \<open>src/pages/Live/SpeakerView.tsx\<close>
  reads the participant map and the HLS state from the streaming provider
  (\<open>useMeeting\<close> of the VideoSDK), keeps the conference-mode participants in a
  \<open>useMemo\<close> keyed on the map, and renders the state line, the controls, one
  \<open>ParticipantView\<close> per speaker (keyed by participant id) and the chat.

  The provider is not among the sources. Following the spec (\<section>3, \<section>5) it
  pushes participant changes as a new map object (a full replace; the
  object's identity is \<open>participants_ref\<close>) and HLS state changes as they
  come. The spec's Live Session Controller (\<section>4.3) is modelled beside the
  code: its partition of the participants by mode, and its session
  lifecycle (\<open>ctrl_apply\<close>), whose order the SpeakerView itself does not
  enforce.
\<close>

section \<open>Data\<close>

text \<open>\<open>Constants.modes\<close> and \<open>Constants.hlsEvents\<close> of the VideoSDK.\<close>

datatype mode = CONFERENCE | VIEWER

datatype hls_state = HLS_STARTING | HLS_STARTED | HLS_PLAYABLE | HLS_STOPPING | HLS_STOPPED

record participant =
  pid :: string
  pmode :: mode
  displayName :: string

text \<open>A JavaScript \<open>Map\<close> keyed by participant id, in insertion order.\<close>

type_synonym participant_map = "(string \<times> participant) list"

record meeting =
  participants :: participant_map
  participants_ref :: nat
  hlsState :: hls_state

section \<open>The SpeakerView\<close>

text \<open>The \<open>useMemo\<close> body (lines 10--18).\<close>

definition speakers :: "participant_map \<Rightarrow> participant list" where
  "speakers ps = filter (\<lambda>p. pmode p = CONFERENCE) (map snd ps)"

text \<open>
  \<open>useMemo(..., [participants])\<close>: the cached value is reused while the
  dependency is the same object, and recomputed otherwise.
\<close>

record speaker_memo =
  memo_ref :: nat
  memo_val :: "participant list"

definition use_memo_speakers :: "meeting \<Rightarrow> speaker_memo option \<Rightarrow> speaker_memo" where
  "use_memo_speakers m c =
     (case c of
        Some c' \<Rightarrow> if memo_ref c' = participants_ref m then c'
                  else \<lparr>memo_ref = participants_ref m, memo_val = speakers (participants m)\<rparr>
      | None \<Rightarrow> \<lparr>memo_ref = participants_ref m, memo_val = speakers (participants m)\<rparr>)"

datatype view = StatusLine hls_state | ControlsView | ParticipantView string | ChatView

text \<open>The render (lines 20--30); it returns the markup and the memo cache.\<close>

definition speaker_view :: "meeting \<Rightarrow> speaker_memo option \<Rightarrow> view list \<times> speaker_memo" where
  "speaker_view m c =
     (let c' = use_memo_speakers m c
      in ([StatusLine (hlsState m), ControlsView] @ map (\<lambda>p. ParticipantView (pid p)) (memo_val c')
          @ [ChatView], c'))"

section \<open>The provider's pushes\<close>

text \<open>\<open>Map.set\<close> keeps the position of an existing key; \<open>Map.delete\<close> drops it.\<close>

definition map_set :: "string \<Rightarrow> participant \<Rightarrow> participant_map \<Rightarrow> participant_map" where
  "map_set k v ps =
     (if k \<in> set (map fst ps) then map (\<lambda>(k', v'). if k' = k then (k', v) else (k', v')) ps
      else ps @ [(k, v)])"

definition map_delete :: "string \<Rightarrow> participant_map \<Rightarrow> participant_map" where
  "map_delete k ps = filter (\<lambda>(k', _). k' \<noteq> k) ps"

definition set_mode :: "string \<Rightarrow> mode \<Rightarrow> participant_map \<Rightarrow> participant_map" where
  "set_mode k md ps = map (\<lambda>(k', p). if k' = k then (k', p\<lparr>pmode := md\<rparr>) else (k', p)) ps"

datatype live_event =
    ParticipantJoined participant | ParticipantLeft string | ModeChanged string mode
  | HlsStateChanged hls_state | Render

record live_sys =
  mtg :: meeting
  memo :: "speaker_memo option"
  screen :: "view list"

definition replace_participants :: "participant_map \<Rightarrow> meeting \<Rightarrow> meeting" where
  "replace_participants ps m = m\<lparr>participants := ps, participants_ref := Suc (participants_ref m)\<rparr>"

fun live_step :: "live_sys \<Rightarrow> live_event \<Rightarrow> live_sys" where
  "live_step s (ParticipantJoined p) =
     s\<lparr>mtg := replace_participants (map_set (pid p) p (participants (mtg s))) (mtg s)\<rparr>"
| "live_step s (ParticipantLeft k) =
     s\<lparr>mtg := replace_participants (map_delete k (participants (mtg s))) (mtg s)\<rparr>"
| "live_step s (ModeChanged k md) =
     s\<lparr>mtg := replace_participants (set_mode k md (participants (mtg s))) (mtg s)\<rparr>"
| "live_step s (HlsStateChanged st) = s\<lparr>mtg := (mtg s)\<lparr>hlsState := st\<rparr>\<rparr>"
| "live_step s Render =
     (let (v, c) = speaker_view (mtg s) (memo s) in s\<lparr>memo := Some c, screen := v\<rparr>)"

definition live_run :: "live_sys \<Rightarrow> live_event list \<Rightarrow> live_sys" where
  "live_run s evs = fold (\<lambda>e s. live_step s e) evs s"

definition wf_participants :: "participant_map \<Rightarrow> bool" where
  "wf_participants ps \<longleftrightarrow> distinct (map fst ps) \<and> list_all (\<lambda>(k, p). pid p = k) ps"

definition live_init :: "participant_map \<Rightarrow> hls_state \<Rightarrow> live_sys" where
  "live_init ps st =
     \<lparr>mtg = \<lparr>participants = ps, participants_ref = 0, hlsState = st\<rparr>, memo = None, screen = []\<rparr>"

inductive live_reach :: "live_sys \<Rightarrow> bool" where
  init: "wf_participants ps \<Longrightarrow> live_reach (live_init ps st)"
| step: "live_reach s \<Longrightarrow> live_reach (live_step s e)"

definition memo_ok :: "live_sys \<Rightarrow> bool" where
  "memo_ok s \<longleftrightarrow>
     (case memo s of None \<Rightarrow> True
      | Some c \<Rightarrow> memo_ref c \<le> participants_ref (mtg s)
                 \<and> (memo_ref c = participants_ref (mtg s) \<longrightarrow> memo_val c = speakers (participants (mtg s))))"

definition live_inv :: "live_sys \<Rightarrow> bool" where
  "live_inv s \<longleftrightarrow> wf_participants (participants (mtg s)) \<and> memo_ok s"

section \<open>The spec's controller\<close>

text \<open>
  \<open>partitionByMode\<close> (spec \<section>4.3): one pass over the participants,
  appending each to the group of its mode.
\<close>

fun bucket :: "participant list \<Rightarrow> (mode \<Rightarrow> participant list) \<Rightarrow> (mode \<Rightarrow> participant list)" where
  "bucket [] acc = acc"
| "bucket (p # ps) acc = bucket ps (acc(pmode p := acc (pmode p) @ [p]))"

definition partitionByMode :: "participant_map \<Rightarrow> mode \<Rightarrow> participant list" where
  "partitionByMode ps = bucket (map snd ps) (\<lambda>_. [])"

text \<open>
  The session lifecycle \<open>NOT_STARTED \<rightarrow> STARTED \<rightarrow> STOPPED\<close>; the
  controller applies a pushed state only when it is not less advanced than
  the current one, and ignores everything once stopped.
\<close>

datatype session_state = NOT_STARTED | STARTED | STOPPED

fun session_rank :: "session_state \<Rightarrow> nat" where
  "session_rank NOT_STARTED = 0"
| "session_rank STARTED = 1"
| "session_rank STOPPED = 2"

text \<open>The lifecycle order of spec \<section>8, as the library's linear order.\<close>

instantiation session_state :: linorder
begin

definition less_eq_session_state :: "session_state \<Rightarrow> session_state \<Rightarrow> bool" where
  "less_eq_session_state a b \<longleftrightarrow> session_rank a \<le> session_rank b"

definition less_session_state :: "session_state \<Rightarrow> session_state \<Rightarrow> bool" where
  "less_session_state a b \<longleftrightarrow> session_rank a < session_rank b"

instance
proof
  fix x y z :: session_state
  show "(x < y) = (x \<le> y \<and> \<not> y \<le> x)"
    by (auto simp: less_eq_session_state_def less_session_state_def)
  show "x \<le> x" by (simp add: less_eq_session_state_def)
  show "x \<le> y \<Longrightarrow> y \<le> z \<Longrightarrow> x \<le> z" by (simp add: less_eq_session_state_def)
  show "x \<le> y \<Longrightarrow> y \<le> x \<Longrightarrow> x = y"
    by (cases x; cases y) (simp_all add: less_eq_session_state_def)
  show "x \<le> y \<or> y \<le> x" by (auto simp: less_eq_session_state_def)
qed

end

fun session_of :: "hls_state \<Rightarrow> session_state" where
  "session_of HLS_STARTING = NOT_STARTED"
| "session_of HLS_STARTED = STARTED"
| "session_of HLS_PLAYABLE = STARTED"
| "session_of HLS_STOPPING = STARTED"
| "session_of HLS_STOPPED = STOPPED"

definition ctrl_apply :: "session_state \<Rightarrow> hls_state \<Rightarrow> session_state" where
  "ctrl_apply cur h =
     (if cur = STOPPED then cur
      else if cur \<le> session_of h then session_of h else cur)"

definition ctrl_run :: "session_state \<Rightarrow> hls_state list \<Rightarrow> session_state" where
  "ctrl_run cur hs = fold (\<lambda>h c. ctrl_apply c h) hs cur"

section \<open>Lemmas\<close>

lemma wf_map_set: "wf_participants ps \<Longrightarrow> pid v = k \<Longrightarrow> wf_participants (map_set k v ps)"
proof -
  assume wf: "wf_participants ps" and k: "pid v = k"
  let ?upd = "map (\<lambda>(k', v'). if k' = k then (k', v) else (k', v')) ps"
  show ?thesis
  proof (cases "k \<in> set (map fst ps)")
    case True
    then have eq: "map_set k v ps = ?upd" by (simp add: map_set_def)
    have keys: "map fst ?upd = map fst ps"
      by (induction ps) auto
    have la: "list_all (\<lambda>(k, p). pid p = k) ?upd"
      using wf k by (force simp: wf_participants_def list_all_iff split: if_splits)
    have d: "distinct (map fst ?upd)"
      using wf by (simp only: keys) (simp add: wf_participants_def)
    show ?thesis
      by (simp only: eq wf_participants_def) (rule conjI [OF d la])
  next
    case False
    with wf k show ?thesis
      by (simp add: wf_participants_def map_set_def)
  qed
qed

lemma wf_map_delete: "wf_participants ps \<Longrightarrow> wf_participants (map_delete k ps)"
  by (auto simp: wf_participants_def map_delete_def list_all_iff distinct_map_filter)

lemma wf_set_mode: "wf_participants ps \<Longrightarrow> wf_participants (set_mode k md ps)"
proof -
  assume wf: "wf_participants ps"
  have keys: "map fst (set_mode k md ps) = map fst ps"
    by (induction ps) (auto simp: set_mode_def)
  have "list_all (\<lambda>(k, p). pid p = k) (set_mode k md ps)"
    using wf by (auto simp: set_mode_def list_all_iff wf_participants_def split: if_splits)
  with wf keys show ?thesis
    by (simp add: wf_participants_def)
qed

lemma participants_replace [simp]: "participants (replace_participants ps m) = ps"
  by (simp add: replace_participants_def)

lemma memo_ok_replace: "memo_ok s \<Longrightarrow> memo_ok (s\<lparr>mtg := replace_participants ps (mtg s)\<rparr>)"
  by (auto simp: memo_ok_def replace_participants_def split: option.splits)

lemma use_memo_speakers_ok:
  "memo_ok s \<Longrightarrow> memo_val (use_memo_speakers (mtg s) (memo s)) = speakers (participants (mtg s))
    \<and> memo_ref (use_memo_speakers (mtg s) (memo s)) = participants_ref (mtg s)"
  by (auto simp: memo_ok_def use_memo_speakers_def split: option.splits)

lemma live_step_inv: "live_inv s \<Longrightarrow> live_inv (live_step s e)"
proof (cases e)
  case (ParticipantJoined p)
  assume "live_inv s"
  with ParticipantJoined show ?thesis
    by (simp add: live_inv_def wf_map_set memo_ok_replace)
next
  case (ParticipantLeft k)
  assume "live_inv s"
  with ParticipantLeft show ?thesis
    by (simp add: live_inv_def wf_map_delete memo_ok_replace)
next
  case (ModeChanged k md)
  assume "live_inv s"
  with ModeChanged show ?thesis
    by (simp add: live_inv_def wf_set_mode memo_ok_replace)
next
  case (HlsStateChanged st)
  assume "live_inv s"
  then have "memo_ok (s\<lparr>mtg := (mtg s)\<lparr>hlsState := st\<rparr>\<rparr>)"
    by (simp add: live_inv_def memo_ok_def split: option.splits)
  with \<open>live_inv s\<close> HlsStateChanged show ?thesis
    by (simp add: live_inv_def)
next
  case Render
  assume "live_inv s"
  with Render show ?thesis
    using use_memo_speakers_ok [of s]
    by (simp add: live_inv_def speaker_view_def Let_def memo_ok_def)
qed

lemma live_reach_inv: "live_reach s \<Longrightarrow> live_inv s"
proof (induction rule: live_reach.induct)
  case (init ps st)
  then show ?case by (simp add: live_inv_def live_init_def memo_ok_def)
next
  case (step s e)
  from step.IH show ?case by (rule live_step_inv)
qed

lemma bucket_filter: "bucket xs acc md = acc md @ filter (\<lambda>p. pmode p = md) xs"
  by (induction xs arbitrary: acc) auto

lemma session_le_rank [simp]: "(a :: session_state) \<le> b \<longleftrightarrow> session_rank a \<le> session_rank b"
  by (simp add: less_eq_session_state_def)

lemma live_reach_run: "live_reach s \<Longrightarrow> live_reach (live_run s evs)"
  unfolding live_run_def
  by (rule fold_invariant [where Q = "\<lambda>_. True"]) (auto intro: live_reach.step)

lemma partition_viewer:
  "partitionByMode ps VIEWER = filter (\<lambda>p. pmode p \<noteq> CONFERENCE) (map snd ps)"
proof -
  have "(pmode p = VIEWER) = (pmode p \<noteq> CONFERENCE)" for p :: participant
    by (cases "pmode p") simp_all
  then show ?thesis by (simp add: partitionByMode_def bucket_filter)
qed

section \<open>Properties\<close>

text \<open>
  C12: In every reachable state the SpeakerView renders the state line, the
  controls, one \<open>ParticipantView\<close> per conference-mode participant of the
  current map in map order, and the chat: the \<open>useMemo\<close> cache never
  shows an earlier map's speakers.
\<close>

theorem live_view_fresh:
  "live_reach s \<Longrightarrow> fst (speaker_view (mtg s) (memo s)) =
     [StatusLine (hlsState (mtg s)), ControlsView]
     @ map (\<lambda>p. ParticipantView (pid p)) (speakers (participants (mtg s))) @ [ChatView]"
  using live_reach_inv [of s] use_memo_speakers_ok [of s]
  by (simp add: live_inv_def speaker_view_def Let_def)

text \<open>
  C13: The SpeakerView's speaker list is the conference group of the spec's
  one-pass \<open>partitionByMode\<close>; the conference and viewer groups are
  disjoint and together hold every participant exactly once.
\<close>

theorem live_partition:
  "speakers ps = partitionByMode ps CONFERENCE
   \<and> mset (partitionByMode ps CONFERENCE) + mset (partitionByMode ps VIEWER) = mset (map snd ps)
   \<and> set (partitionByMode ps CONFERENCE) \<inter> set (partitionByMode ps VIEWER) = {}"
proof -
  have c: "partitionByMode ps CONFERENCE = filter (\<lambda>p. pmode p = CONFERENCE) (map snd ps)"
    by (simp add: partitionByMode_def bucket_filter)
  have m: "mset (map snd ps) = filter_mset (\<lambda>p. pmode p = CONFERENCE) (mset (map snd ps))
        + filter_mset (\<lambda>p. \<not> pmode p = CONFERENCE) (mset (map snd ps))"
    by (rule multiset_partition)
  have "mset (partitionByMode ps CONFERENCE) + mset (partitionByMode ps VIEWER) = mset (map snd ps)"
    using m by (simp add: c partition_viewer)
  moreover have "set (partitionByMode ps CONFERENCE) \<inter> set (partitionByMode ps VIEWER) = {}"
    by (auto simp: c partition_viewer)
  ultimately show ?thesis by (simp add: c speakers_def)
qed

theorem live_view_fresh_witness:
  "let s = live_run (live_init [] HLS_STARTED)
             [ParticipantJoined \<lparr>pid = ''h'', pmode = CONFERENCE, displayName = ''Host''\<rparr>, Render,
              ParticipantJoined \<lparr>pid = ''v'', pmode = VIEWER, displayName = ''Guest''\<rparr>,
              ModeChanged ''v'' CONFERENCE]
   in live_reach s \<and> fst (speaker_view (mtg s) (memo s))
        = [StatusLine HLS_STARTED, ControlsView, ParticipantView ''h'', ParticipantView ''v'', ChatView]"
proof -
  let ?s = "live_run (live_init [] HLS_STARTED)
             [ParticipantJoined \<lparr>pid = ''h'', pmode = CONFERENCE, displayName = ''Host''\<rparr>, Render,
              ParticipantJoined \<lparr>pid = ''v'', pmode = VIEWER, displayName = ''Guest''\<rparr>,
              ModeChanged ''v'' CONFERENCE]"
  have r: "live_reach ?s"
    by (rule live_reach_run, rule live_reach.init) (simp add: wf_participants_def)
  have "participants (mtg ?s) = [(''h'', \<lparr>pid = ''h'', pmode = CONFERENCE, displayName = ''Host''\<rparr>),
          (''v'', \<lparr>pid = ''v'', pmode = CONFERENCE, displayName = ''Guest''\<rparr>)]"
    and "hlsState (mtg ?s) = HLS_STARTED"
    by (simp_all add: live_run_def live_init_def replace_participants_def map_set_def set_mode_def
        speaker_view_def Let_def)
  with r show ?thesis
    using live_view_fresh [OF r] by (simp add: speakers_def Let_def)
qed

end
