(* ===== verification/Receipt.thy ===== *)
theory Receipt
  imports Prelude
begin

text \<open>
  The printable receipt of \<open>fe/src/pages/ThankYou/ThankYou.tsx\<close>:
  \<open>generatePDFBlob\<close> writes a header (title, shop, hotline, e-mail,
  customer, date), builds one table row per cart line while summing the
  grand total, and lets \<open>autoTable\<close> lay the rows out over pages, its
  \<open>didDrawPage\<close> callback writing the total at the foot of every page;
  \<open>printPDF\<close> opens the result or logs the error it threw.

  The PDF is modelled as the list of texts written (with position and font
  size) and the pages of the table; \<open>t\<close> (i18n) is a parameter \<open>tr\<close>.
  How many rows fit on a page is \<open>autoTable\<close>'s layout, not this code: the
  first page holds \<open>c1\<close> rows (below \<open>startY = 70\<close>), each later page \<open>c2\<close>,
  and a page always takes at least one row.
\<close>

section \<open>Data\<close>

record pdf_text =
  content :: string
  pos_x :: nat
  pos_y :: nat
  font_size :: nat

record js_date =
  date_day :: nat
  date_month0 :: nat
  date_year :: nat

record pdf_page =
  page_rows :: "string list list"
  page_footer :: pdf_text

record pdf_doc =
  doc_texts :: "pdf_text list"
  table_head :: "string list"
  doc_pages :: "pdf_page list"

datatype receipt_error = TypeError string

datatype print_outcome = OpenedWindow pdf_doc | LoggedError receipt_error

section \<open>The header\<close>

text \<open>\<open>formattedDate\<close> (lines 43--46): \<open>getMonth()\<close> counts from 0.\<close>

definition format_date :: "js_date \<Rightarrow> string" where
  "format_date d =
     show_nat (date_day d) @ ''/'' @ show_nat (date_month0 d + 1) @ ''/'' @ show_nat (date_year d)"

text \<open>
  The header texts (lines 53--64). \<open>user.name\<close> on a missing user (the Redux
  store holds \<open>null\<close> when nobody is logged in) throws a \<open>TypeError\<close>.
\<close>

definition header_texts :: "(string \<Rightarrow> string) \<Rightarrow> user_info option \<Rightarrow> js_date
    \<Rightarrow> receipt_error + pdf_text list" where
  "header_texts tr user d =
     (case user of
        None \<Rightarrow> Inl (TypeError ''Cannot read properties of null (reading 'name')'')
      | Some u \<Rightarrow> Inr
          [\<lparr>content = tr ''pdf.title'', pos_x = 105, pos_y = 20, font_size = 18\<rparr>,
           \<lparr>content = ''SEEDLING MARKET'', pos_x = 10, pos_y = 30, font_size = 12\<rparr>,
           \<lparr>content = tr ''pdf.hotline'' @ '': (+84) 999-439611'', pos_x = 10, pos_y = 35, font_size = 12\<rparr>,
           \<lparr>content = ''Email: seedlingmarket@company.com'', pos_x = 10, pos_y = 40, font_size = 12\<rparr>,
           \<lparr>content = tr ''pdf.customer'' @ '': '' @ uname u, pos_x = 150, pos_y = 30, font_size = 12\<rparr>,
           \<lparr>content = tr ''pdf.date'' @ '': '' @ format_date d, pos_x = 150, pos_y = 35, font_size = 12\<rparr>])"

definition table_columns :: "(string \<Rightarrow> string) \<Rightarrow> string list" where
  "table_columns tr =
     [tr ''pdf.productId'', tr ''pdf.productName'', tr ''pdf.quantity'', tr ''pdf.price'', tr ''pdf.total'']"

section \<open>The rows and the total\<close>

definition line_total :: "card_info \<Rightarrow> int" where
  "line_total p = quantity p * price p"

text \<open>\<open>productData\<close> (lines 77--83): amounts are rendered with \<open>" VND"\<close>.\<close>

definition product_row :: "card_info \<Rightarrow> string list" where
  "product_row p =
     [show_int (productId p), productName p, show_int (quantity p),
      show_int (price p) @ '' VND'', show_int (line_total p) @ '' VND'']"

text \<open>The \<open>forEach\<close> loop (lines 73--85) with its two accumulators.\<close>

fun build_rows :: "card_info list \<Rightarrow> string list list \<Rightarrow> int \<Rightarrow> string list list \<times> int" where
  "build_rows [] rows totalAmount = (rows, totalAmount)"
| "build_rows (p # ps) rows totalAmount = build_rows ps (rows @ [product_row p]) (totalAmount + line_total p)"

section \<open>Pages\<close>

function chunks :: "nat \<Rightarrow> 'a list \<Rightarrow> 'a list list" where
  "chunks n xs = (if xs = [] then [] else take (max 1 n) xs # chunks n (drop (max 1 n) xs))"
  by pat_completeness auto
termination
  by (relation "measure (\<lambda>(n, xs). length xs)") auto

declare chunks.simps [simp del]

text \<open>\<open>autoTable\<close>'s pages: the first holds \<open>c1\<close> rows, the others \<open>c2\<close>; an empty body still draws one page.\<close>

definition paginate :: "nat \<Rightarrow> nat \<Rightarrow> 'a list \<Rightarrow> 'a list list" where
  "paginate c1 c2 rows =
     (if rows = [] then [[]] else take (max 1 c1) rows # chunks c2 (drop (max 1 c1) rows))"

text \<open>\<open>didDrawPage\<close> (lines 92--96): the total at the foot of the page, in size 14.\<close>

definition total_line :: "(string \<Rightarrow> string) \<Rightarrow> nat \<Rightarrow> int \<Rightarrow> pdf_text" where
  "total_line tr ph totalAmount =
     \<lparr>content = tr ''pdf.totalPrice'' @ '': '' @ show_int totalAmount @ '' VND'', pos_x = 130,
      pos_y = ph - 10, font_size = 14\<rparr>"

definition draw_table :: "(string \<Rightarrow> string) \<Rightarrow> nat \<Rightarrow> nat \<Rightarrow> nat \<Rightarrow> string list list \<Rightarrow> int
    \<Rightarrow> pdf_page list" where
  "draw_table tr ph c1 c2 body totalAmount =
     map (\<lambda>rows. \<lparr>page_rows = rows, page_footer = total_line tr ph totalAmount\<rparr>)
       (paginate c1 c2 body)"

section \<open>generatePDFBlob and printPDF\<close>

text \<open>\<open>generatePDFBlob\<close> (lines 38--104); A4 pages are 297 units high.\<close>

definition page_height :: nat where
  "page_height = 297"

definition generatePDFBlob :: "(string \<Rightarrow> string) \<Rightarrow> user_info option \<Rightarrow> js_date \<Rightarrow> nat \<Rightarrow> nat
    \<Rightarrow> card_info list \<Rightarrow> receipt_error + pdf_doc" where
  "generatePDFBlob tr user d c1 c2 products =
     (case header_texts tr user d of
        Inl e \<Rightarrow> Inl e
      | Inr texts \<Rightarrow>
          (let (rows, totalAmount) = build_rows products [] 0
           in Inr \<lparr>doc_texts = texts, table_head = table_columns tr,
                   doc_pages = draw_table tr page_height c1 c2 rows totalAmount\<rparr>))"

text \<open>
  \<open>printPDF\<close> (lines 25--36): the blob is always truthy, so a successful
  generation opens a window; a thrown error is caught and logged.
\<close>

definition printPDF :: "(string \<Rightarrow> string) \<Rightarrow> user_info option \<Rightarrow> js_date \<Rightarrow> nat \<Rightarrow> nat
    \<Rightarrow> card_info list \<Rightarrow> print_outcome" where
  "printPDF tr user d c1 c2 products =
     (case generatePDFBlob tr user d c1 c2 products of
        Inl e \<Rightarrow> LoggedError e
      | Inr doc \<Rightarrow> OpenedWindow doc)"

section \<open>Reading the date back\<close>

fun split_on :: "char \<Rightarrow> string \<Rightarrow> string list" where
  "split_on c [] = [[]]"
| "split_on c (x # xs) =
     (if x = c then [] # split_on c xs
      else (case split_on c xs of w # ws \<Rightarrow> (x # w) # ws | [] \<Rightarrow> [[x]]))"

definition parse_date :: "string \<Rightarrow> (nat \<times> nat \<times> nat) option" where
  "parse_date s =
     (case split_on CHR ''/'' s of
        [a, b, c] \<Rightarrow>
          (case (parse_nat a, parse_nat b, parse_nat c) of
             (Some d, Some m, Some y) \<Rightarrow> Some (d, m, y)
           | _ \<Rightarrow> None)
      | _ \<Rightarrow> None)"

section \<open>Lemmas\<close>

lemma chunks_Nil [simp]: "chunks n [] = []"
  by (simp add: chunks.simps)

lemma chunks_concat: "concat (chunks n xs) = xs"
proof (induction n xs rule: chunks.induct)
  case (1 n xs)
  then show ?case by (cases "xs = []") (simp_all add: chunks.simps [of n xs])
qed

lemma chunks_bound: "c \<in> set (chunks n xs) \<Longrightarrow> c \<noteq> [] \<and> length c \<le> max 1 n"
proof (induction n xs rule: chunks.induct)
  case (1 n xs)
  show ?case
  proof (cases "xs = []")
    case True
    with "1.prems" show ?thesis by (simp add: chunks.simps [of n xs])
  next
    case False
    with "1.prems" "1.IH" show ?thesis by (auto simp: chunks.simps [of n xs])
  qed
qed

lemma paginate_concat: "concat (paginate c1 c2 rows) = rows"
  by (simp add: paginate_def chunks_concat)

lemma paginate_bound: "pg \<in> set (paginate c1 c2 rows) \<Longrightarrow> length pg \<le> max 1 (max c1 c2)"
proof (cases "rows = []")
  case True
  assume "pg \<in> set (paginate c1 c2 rows)"
  with True show ?thesis by (simp add: paginate_def)
next
  case False
  assume pg: "pg \<in> set (paginate c1 c2 rows)"
  show ?thesis
  proof (cases "pg = take (max 1 c1) rows")
    case True
    then show ?thesis by auto
  next
    case False
    with pg \<open>rows \<noteq> []\<close> have "pg \<in> set (chunks c2 (drop (max 1 c1) rows))"
      by (simp add: paginate_def)
    then show ?thesis by (auto dest: chunks_bound)
  qed
qed

lemma build_rows_eq:
  "build_rows ps rows acc = (rows @ map product_row ps, acc + sum_list (map line_total ps))"
  by (induction ps arbitrary: rows acc) (simp_all add: algebra_simps)

lemma split_on_no_sep: "c \<notin> set xs \<Longrightarrow> split_on c xs = [xs]"
  by (induction xs) auto

lemma split_on_sep: "c \<notin> set xs \<Longrightarrow> split_on c (xs @ c # ys) = xs # split_on c ys"
proof (induction xs)
  case Nil
  then show ?case by simp
next
  case (Cons x xs)
  then show ?case by auto
qed

lemma generatePDFBlob_user: "\<exists>pdf. generatePDFBlob tr (Some u) d c1 c2 products = Inr pdf"
  by (simp add: generatePDFBlob_def header_texts_def Let_def split_def)

lemma generatePDFBlob_rows:
  "generatePDFBlob tr user d c1 c2 products = Inr pdf \<Longrightarrow>
   concat (map page_rows (doc_pages pdf)) = map product_row products"
  by (auto simp: generatePDFBlob_def draw_table_def build_rows_eq paginate_concat comp_def
      split: sum.splits)

lemma generatePDFBlob_Inr:
  "generatePDFBlob tr user d c1 c2 products = Inr pdf \<Longrightarrow>
   table_head pdf = table_columns tr
   \<and> doc_pages pdf = draw_table tr page_height c1 c2 (map product_row products)
        (sum_list (map line_total products))"
  by (auto simp: generatePDFBlob_def build_rows_eq split: sum.splits)

lemma paginate_rows:
  "pg \<in> set (paginate c1 c2 rows) \<Longrightarrow> set pg \<subseteq> set rows"
proof -
  assume "pg \<in> set (paginate c1 c2 rows)"
  then have "set pg \<subseteq> set (concat (paginate c1 c2 rows))" by auto
  then show ?thesis by (simp add: paginate_concat)
qed

section \<open>Properties\<close>

text \<open>
  C14: For a logged-in user the receipt is generated; laid out over pages, its
  table holds every row exactly once and in order, there is at least one
  page, no page holds more rows than a page takes, and every page's footer
  shows the grand total.
\<close>

theorem receipt_pages:
  "\<exists>doc. generatePDFBlob tr (Some u) d c1 c2 products = Inr doc
     \<and> concat (map page_rows (doc_pages doc)) = map product_row products
     \<and> doc_pages doc \<noteq> []
     \<and> (\<forall>pg \<in> set (doc_pages doc).
          page_footer pg = total_line tr page_height (sum_list (map line_total products))
          \<and> length (page_rows pg) \<le> max 1 (max c1 c2))"
proof -
  let ?rows = "map product_row products"
  have "concat (map page_rows (draw_table tr page_height c1 c2 ?rows t)) = ?rows" for t
    by (simp add: draw_table_def comp_def paginate_concat)
  moreover have "draw_table tr page_height c1 c2 ?rows t \<noteq> []" for t
    by (simp add: draw_table_def paginate_def)
  moreover have "\<forall>pg \<in> set (draw_table tr page_height c1 c2 ?rows t).
      page_footer pg = total_line tr page_height t \<and> length (page_rows pg) \<le> max 1 (max c1 c2)" for t
    by (auto simp: draw_table_def dest: paginate_bound)
  ultimately show ?thesis
    by (simp add: generatePDFBlob_def header_texts_def build_rows_eq Let_def split_def)
qed

text \<open>
  C15: Printing without a logged-in user throws at \<open>user.name\<close>; the error is
  caught and logged and no window opens. With a user, a window opens on the
  document, whose customer line names that user.
\<close>

theorem receipt_print_outcome:
  "printPDF tr None d c1 c2 products = LoggedError (TypeError ''Cannot read properties of null (reading 'name')'')
   \<and> (\<exists>doc. printPDF tr (Some u) d c1 c2 products = OpenedWindow doc
          \<and> content (doc_texts doc ! 4) = tr ''pdf.customer'' @ '': '' @ uname u)"
  by (simp add: printPDF_def generatePDFBlob_def header_texts_def split_def Let_def)

text \<open>
  C16: The date line reads back as day, month counted from 1
  (\<open>getMonth() + 1\<close>) and year.
\<close>

theorem receipt_date_roundtrip:
  "parse_date (format_date d) = Some (date_day d, date_month0 d + 1, date_year d)"
  by (simp add: format_date_def parse_date_def split_on_sep split_on_no_sep)

theorem receipt_pages_witness:
  "\<exists>doc. generatePDFBlob (\<lambda>k. k) (Some alice) \<lparr>date_day = 9, date_month0 = 10, date_year = 2026\<rparr>
       1 1 [tea, matcha] = Inr doc
     \<and> concat (map page_rows (doc_pages doc)) = [product_row tea, product_row matcha]
     \<and> doc_pages doc \<noteq> []"
  using receipt_pages [of "\<lambda>k. k" alice "\<lparr>date_day = 9, date_month0 = 10, date_year = 2026\<rparr>" 1 1 "[tea, matcha]"]
  by auto

text \<open>
  C21: Every row of every page of a generated receipt has one cell per
  column of the table header (id, name, quantity, unit price, line total).
\<close>

theorem receipt_row_shape:
  "generatePDFBlob tr user d c1 c2 products = Inr pdf \<Longrightarrow>
   \<forall>pg \<in> set (doc_pages pdf). \<forall>r \<in> set (page_rows pg). length r = length (table_head pdf)"
proof -
  assume g: "generatePDFBlob tr user d c1 c2 products = Inr pdf"
  have "\<forall>r \<in> set (map product_row products). length r = length (table_columns tr)"
    by (simp add: product_row_def table_columns_def)
  with generatePDFBlob_Inr [OF g] show ?thesis
    by (force simp: draw_table_def dest!: paginate_rows)
qed

theorem receipt_row_shape_witness:
  "\<exists>pdf. generatePDFBlob (\<lambda>k. k) (Some alice) \<lparr>date_day = 9, date_month0 = 10, date_year = 2026\<rparr>
       1 1 [tea, matcha] = Inr pdf \<and> length (table_head pdf) = 5
     \<and> (\<forall>pg \<in> set (doc_pages pdf). \<forall>r \<in> set (page_rows pg). length r = 5)"
proof -
  obtain pdf where g: "generatePDFBlob (\<lambda>k. k) (Some alice) \<lparr>date_day = 9, date_month0 = 10, date_year = 2026\<rparr>
       1 1 [tea, matcha] = Inr pdf"
    using generatePDFBlob_user by blast
  have h: "table_head pdf = table_columns (\<lambda>k. k)" using generatePDFBlob_Inr [OF g] by simp
  show ?thesis using g h receipt_row_shape [OF g] by (simp add: table_columns_def)
qed

end
