(* ===== verification/ThankYouPage.thy ===== *)
theory ThankYouPage
  imports Receipt Routes
begin

text \<open>
  The thank-you page around the receipt (\<open>ThankYou.tsx\<close> lines 15--24 and
  106--130): it reads the paid cart \<open>state.app.listCartPay\<close> and the user
  \<open>state.auth.currentUser\<close> from the Redux store, renders a heading, the
  coupon text and card, a link home and the print button, whose click runs
  \<open>printPDF\<close> on that cart and user.
\<close>

record thank_store =
  listCartPay :: "card_info list"
  currentUser :: "user_info option"

datatype thank_elem = Heading | CouponText | HomeLink route_key | CouponCard | PrintButton

definition thank_view :: "thank_elem list" where
  "thank_view = [Heading, CouponText, HomeLink RHome, CouponCard, PrintButton]"

datatype thank_outcome = ThankGo route_key | Printed print_outcome | ThankStay

fun thank_click :: "(string \<Rightarrow> string) \<Rightarrow> js_date \<Rightarrow> nat \<Rightarrow> nat \<Rightarrow> thank_store \<Rightarrow> thank_elem
    \<Rightarrow> thank_outcome" where
  "thank_click tr d c1 c2 st (HomeLink k) = ThankGo k"
| "thank_click tr d c1 c2 st PrintButton =
     Printed (printPDF tr (currentUser st) d c1 c2 (listCartPay st))"
| "thank_click tr d c1 c2 st _ = ThankStay"

section \<open>Lemmas\<close>

lemma draw_table_footers:
  "pg \<in> set (draw_table tr ph c1 c2 rows t) \<Longrightarrow> page_footer pg = total_line tr ph t"
  by (auto simp: draw_table_def)

lemma draw_table_rows: "concat (map page_rows (draw_table tr ph c1 c2 rows t)) = rows"
  by (simp add: draw_table_def comp_def paginate_concat)

section \<open>Properties\<close>

text \<open>
  C8: On the thank-you page, the print button opens a window exactly when
  a user is logged in, on a receipt whose table holds the rows of the paid
  cart \<open>listCartPay\<close> once each and in order, with the cart's total at the
  foot of every page; without a user it logs the \<open>TypeError\<close> and opens
  nothing. The page's one link leads to the Home page, in the default
  layout.
\<close>

theorem thank_page_print:
  "(case thank_click tr d ca cb st PrintButton of
      Printed (OpenedWindow pdf) \<Rightarrow>
        currentUser st \<noteq> None
        \<and> concat (map page_rows (doc_pages pdf)) = map product_row (listCartPay st)
        \<and> (\<forall>pg \<in> set (doc_pages pdf).
             page_footer pg = total_line tr page_height (sum_list (map line_total (listCartPay st))))
    | Printed (LoggedError e) \<Rightarrow> currentUser st = None
    | _ \<Rightarrow> False)
   \<and> filter (\<lambda>e. \<exists>k. e = HomeLink k) thank_view = [HomeLink RHome]
   \<and> map_option (\<lambda>r. (component r, layout r)) (lookup_route RHome) = Some (Home, Some DefaultLayout)"
proof -
  have "case thank_click tr d ca cb st PrintButton of
      Printed (OpenedWindow pdf) \<Rightarrow>
        currentUser st \<noteq> None
        \<and> concat (map page_rows (doc_pages pdf)) = map product_row (listCartPay st)
        \<and> (\<forall>pg \<in> set (doc_pages pdf).
             page_footer pg = total_line tr page_height (sum_list (map line_total (listCartPay st))))
    | Printed (LoggedError e) \<Rightarrow> currentUser st = None
    | _ \<Rightarrow> False"
  proof (cases "currentUser st")
    case None
    then show ?thesis by (simp add: printPDF_def generatePDFBlob_def header_texts_def)
  next
    case (Some u)
    then show ?thesis
      by (auto simp: printPDF_def generatePDFBlob_def header_texts_def build_rows_eq Let_def
          draw_table_rows draw_table_footers)
  qed
  moreover have "filter (\<lambda>e. \<exists>k. e = HomeLink k) thank_view = [HomeLink RHome]"
    by (simp add: thank_view_def)
  moreover have "map_option (\<lambda>r. (component r, layout r)) (lookup_route RHome) = Some (Home, Some DefaultLayout)"
    by (simp add: lookup_route_def publicRoutes_def)
  ultimately show ?thesis by blast
qed

theorem thank_page_print_witness:
  "case thank_click (\<lambda>k. k) \<lparr>date_day = 9, date_month0 = 10, date_year = 2026\<rparr> 1 1
          \<lparr>listCartPay = [tea, matcha], currentUser = Some alice\<rparr> PrintButton of
     Printed (OpenedWindow pdf) \<Rightarrow> concat (map page_rows (doc_pages pdf)) = [product_row tea, product_row matcha]
   | _ \<Rightarrow> False"
  using thank_page_print [where tr = "\<lambda>k. k" and d = "\<lparr>date_day = 9, date_month0 = 10, date_year = 2026\<rparr>"
      and ca = 1 and cb = 1 and st = "\<lparr>listCartPay = [tea, matcha], currentUser = Some alice\<rparr>"]
  by (auto split: thank_outcome.splits print_outcome.splits)

end
