(* ===== verification/Footer.thy ===== *)
theory Footer
  imports Prelude
begin

text \<open>
  The footer (\<open>src/src/components/Footer.tsx\<close>) is static markup: four
  columns, each a heading over plain text entries (none of them is a link).
  It has no state, handler or input; its content is modelled as data, as
  the source writes it.
\<close>

record footer_column =
  col_heading :: string
  col_entries :: "string list"

definition footer_columns :: "footer_column list" where
  "footer_columns =
     [\<lparr>col_heading = ''Why People Like us!'', col_entries = []\<rparr>,
      \<lparr>col_heading = ''Shop Info'',
       col_entries = [''About Us'', ''Contact Us'', ''Privacy Policy'', ''Term and Condition'']\<rparr>,
      \<lparr>col_heading = ''Account'', col_entries = [''Shop Details'', ''Shopping Cart'']\<rparr>,
      \<lparr>col_heading = ''Contact '',
       col_entries = [''Address'', ''Email: matcha@company.net'', ''Phone: +84329028367'',
                      ''Payment Accepted'']\<rparr>]"

end
