(* ===== verification/ChatRelay.thy ===== *)
theory ChatRelay
  imports Navbar LiveSession
begin

text \<open>
  The chat side channel of the live session (spec \<section>4.4). Its component
  (\<open>pages/Live/Chat\<close>, rendered at the foot of the SpeakerView) is not among
  the sources, so the relay is modelled from the spec: a message has a
  sender, a kind, a payload and a time; \<open>send\<close> fails with
  \<open>NotConnectedError\<close> unless the session has started; each sender's
  messages travel in order, senders interleave freely; a received
  \<open>cart-notification\<close> acts as a local \<open>updateCartNumber\<close> publish on the
  receiving participant's bus (so its Navbar refetches), a chat message
  goes to the display.

  The session is the one the SpeakerView shows: the relay is connected
  when the provider's HLS state means a started session.
\<close>

datatype msg_kind = ChatKind | CartNotification

record chat_message =
  senderId :: string
  kind :: msg_kind
  payload :: string
  timestamp :: nat

datatype relay_error = NotConnectedError

record relay_sys =
  nav :: nav_sys
  meet :: meeting
  queues :: "string \<Rightarrow> chat_message list"
  sent :: "string \<Rightarrow> chat_message list"
  delivered :: "string \<Rightarrow> chat_message list"
  chat_log :: "chat_message list"

definition connected :: "meeting \<Rightarrow> bool" where
  "connected m \<longleftrightarrow> session_of (hlsState m) = STARTED"

definition send :: "chat_message \<Rightarrow> relay_sys \<Rightarrow> relay_error + relay_sys" where
  "send msg s =
     (if \<not> connected (meet s) then Inl NotConnectedError
      else Inr (s\<lparr>queues := (queues s)(senderId msg := queues s (senderId msg) @ [msg]),
                  sent := (sent s)(senderId msg := sent s (senderId msg) @ [msg])\<rparr>))"

text \<open>Routing by kind on arrival.\<close>

definition on_message :: "chat_message \<Rightarrow> relay_sys \<Rightarrow> relay_sys" where
  "on_message msg s =
     (case kind msg of
        CartNotification \<Rightarrow> s\<lparr>nav := nav_step (nav s) (Publish upd_topic)\<rparr>
      | ChatKind \<Rightarrow> s\<lparr>chat_log := chat_log s @ [msg]\<rparr>)"

text \<open>The transport hands over the oldest message in flight from one sender.\<close>

definition deliver_from :: "string \<Rightarrow> relay_sys \<Rightarrow> relay_sys" where
  "deliver_from x s =
     (case queues s x of
        [] \<Rightarrow> s
      | msg # rest \<Rightarrow>
          on_message msg (s\<lparr>queues := (queues s)(x := rest),
                            delivered := (delivered s)(x := delivered s x @ [msg])\<rparr>))"

datatype relay_event =
    Send chat_message | Deliver string | SessionPush hls_state | NavEvent nav_event

fun relay_step :: "relay_sys \<Rightarrow> relay_event \<Rightarrow> relay_sys" where
  "relay_step s (Send msg) = (case send msg s of Inl _ \<Rightarrow> s | Inr s' \<Rightarrow> s')"
| "relay_step s (Deliver x) = deliver_from x s"
| "relay_step s (SessionPush h) = s\<lparr>meet := (meet s)\<lparr>hlsState := h\<rparr>\<rparr>"
| "relay_step s (NavEvent e) = s\<lparr>nav := nav_step (nav s) e\<rparr>"

definition relay_init :: "nav_sys \<Rightarrow> meeting \<Rightarrow> relay_sys" where
  "relay_init n m =
     \<lparr>nav = n, meet = m, queues = (\<lambda>_. []), sent = (\<lambda>_. []), delivered = (\<lambda>_. []), chat_log = []\<rparr>"

inductive relay_reach :: "relay_sys \<Rightarrow> bool" where
  init: "nav_reach n \<Longrightarrow> relay_reach (relay_init n m)"
| step: "relay_reach s \<Longrightarrow> relay_reach (relay_step s e)"

section \<open>Lemmas\<close>

lemma on_message_frame:
  "queues (on_message msg s) = queues s \<and> sent (on_message msg s) = sent s
   \<and> delivered (on_message msg s) = delivered s \<and> meet (on_message msg s) = meet s"
  by (simp add: on_message_def split: msg_kind.splits)

lemma relay_step_order:
  assumes "\<forall>x. delivered s x @ queues s x = sent s x"
  shows "\<forall>x. delivered (relay_step s e) x @ queues (relay_step s e) x = sent (relay_step s e) x"
proof (cases e)
  case (Send msg)
  with assms show ?thesis by (auto simp: send_def)
next
  case (Deliver y)
  show ?thesis
  proof (cases "queues s y")
    case Nil
    with Deliver assms show ?thesis by (simp add: deliver_from_def)
  next
    case (Cons msg rest)
    with Deliver assms assms[rule_format, of y] show ?thesis
      by (auto simp: deliver_from_def on_message_frame)
  qed
qed (use assms in simp_all)

lemma relay_nav_reach: "relay_reach s \<Longrightarrow> nav_reach (nav s)"
proof (induction rule: relay_reach.induct)
  case (init n m)
  then show ?case by (simp add: relay_init_def)
next
  case (step s e)
  have "nav_reach (nav_step (nav s) ev)" for ev
    using step.IH by (rule nav_reach.step)
  with step.IH show ?case
    by (cases e) (auto simp: send_def deliver_from_def on_message_def simp del: nav_step.simps
        split: list.splits msg_kind.splits sum.splits)
qed

lemma relay_order_inv: "relay_reach s \<Longrightarrow> \<forall>x. delivered s x @ queues s x = sent s x"
proof (induction rule: relay_reach.induct)
  case (init n m)
  then show ?case by (simp add: relay_init_def)
next
  case (step s e)
  from step.IH show ?case by (rule relay_step_order)
qed

section \<open>Properties\<close>

end
