(* ===== verification/Spec2Isabelle.thy ===== *)
theory Spec2Isabelle
  imports Navbar NavbarView CartRequests CartSyncSpec LiveSession Receipt ThankYouPage Footer Routes ChatRelay
begin

text \<open>
  A verification library for the shop front-end of this repository: the
  real-time synchronisation core that spec.md describes, over the sources
  under \<open>src/\<close>. The program's parts and how they interact:

  \<^item> The event bus (\<open>fe/src/eventEmitter\<close>, not among the sources) lets
    independently mounted components agree on the cart: whoever changes the
    cart publishes \<open>updateCartNumber\<close>, and the Navbar refetches.
  \<^item> The Navbar (\<open>src/fe/src/components/Header/Navbar.tsx\<close>) holds the cart
    badge (\<open>cartCount\<close>, fetched by \<open>fetchCart\<close> through \<open>getCartByUser\<close>),
    subscribes \<open>handleEvent\<close> to the bus while mounted, and runs the mobile
    menu with a document-level \<open>mousedown\<close> listener.
  \<^item> The live page (\<open>src/src/pages/Live/SpeakerView.tsx\<close>) renders the HLS
    state and one \<open>ParticipantView\<close> per conference-mode participant, read
    from the streaming provider through \<open>useMeeting\<close>, with a memoised speaker
    list. Its chat (\<open>pages/Live/Chat\<close>, not among the sources) is the
    side-channel relay of spec 4.4; a cart notification it receives acts as
    an \<open>updateCartNumber\<close> publish, which ties the live page to the Navbar.
  \<^item> The thank-you page (\<open>src/fe/src/pages/ThankYou/ThankYou.tsx\<close>) prints the
    receipt of the cart it holds (\<open>generatePDFBlob\<close>, \<open>printPDF\<close>).
  \<^item> The route table (\<open>src/fe/src/routes/index.ts\<close>) maps route keys to pages
    and layouts. The Navbar links into it.

  Theories and groups of definitions:

  \<^item> \<open>Prelude\<close> holds the shared data: \<open>user_info\<close> (\<open>GetUserInfoDto\<close>),
    \<open>card_info\<close> (\<open>CardInfo\<close>), and the spec's example cart (\<open>tea\<close>,
    \<open>matcha\<close>) and user (\<open>alice\<close>). It also has decimal rendering
    (\<open>show_nat\<close>, \<open>show_int\<close>, JavaScript's number-to-string on integers)
    with the parsers that invert it, and list lemmas (\<open>remove_nth\<close>,
    \<open>removeAll\<close>). The collections \<open>model_simps\<close> and \<open>inv_simps\<close> carry the
    evaluation and invariant proofs.
  \<^item> \<open>EventBus\<close> (modelled from spec 4.1): an emitter is its list of
    (topic, handler) subscriptions.
    \<^item> \<open>on\<close> appends a subscription and \<open>off\<close> removes every subscription of
      that handler value on that topic.
    \<^item> \<open>emit\<close> runs the handlers subscribed at the moment of the publish, in
      order, threading the caller's state, and records each handler's
      failure without stopping the others.
  \<^item> \<open>Navbar\<close> (Navbar.tsx lines 18--128) has one definition per piece of
    React state, effect, cleanup and handler:
    \<^item> \<open>cart_effect\<close>/\<open>cart_cleanup\<close> for the first \<open>useEffect\<close>, and
      \<open>fetchCart\<close>, \<open>run_handler\<close> (\<open>handleEvent\<close>), \<open>resolve\<close> and \<open>reject\<close> for
      the awaited call;
    \<^item> \<open>menu_effect\<close>/\<open>menu_cleanup\<close>, \<open>setIsMenuOpen\<close>, \<open>toggleMenu\<close>,
      \<open>handleClickOutside\<close> and \<open>mouseDown\<close> for the menu;
    \<^item> \<open>mount\<close>/\<open>unmount\<close>, and \<open>badge\<close> for line 127.

    The state \<open>nav_sys\<close> also holds what the component talks to: the bus, the
    backend's carts, the Redux user, the document's listeners and the
    in-flight requests. \<open>nav_step\<close> applies one event of the environment,
    \<open>nav_run\<close> a sequence, and \<open>nav_reach\<close> is the set of states reachable
    from a start state by any interleaving. Closure identity is explicit: a
    \<open>handleEvent\<close> is \<open>HandleEvent g u\<close> (instance \<open>g\<close>, captured user \<open>u\<close>),
    and a \<open>handleClickOutside\<close> is the number of its render.
  \<^item> \<open>NavbarView\<close> (Navbar.tsx lines 22--27 and 79--222): the render
    \<open>navbar_view\<close>. Its inputs besides the state are the \<open>localStorage\<close>
    user (the login control) and \<open>i18n.language\<close> (\<open>default_option\<close> over
    \<open>langOptions\<close>). \<open>on_click\<close> gives each element's \<open>onClick\<close> and link
    target, and \<open>tap\<close> is the browser's \<open>mousedown\<close>, dispatched to
    \<open>handleClickOutside\<close>, followed by the click.
  \<^item> \<open>CartRequests\<close>: the in-flight \<open>getCartByUser\<close> calls as a queue. It
    states how fast the queue grows and what two refreshes return.
  \<^item> \<open>CartSyncSpec\<close> (spec 4.2 and 7) is the Cart Synchronizer as an
    abstract machine \<open>sync_step\<close>. Its state is the count shown, the
    snapshots requested and not yet answered, and the user's cart. Its
    events are refresh, reply, failure and cart change.
    \<^item> \<open>sync_abs_of\<close> maps a Navbar state to an abstract state, and
      \<open>abs_event\<close> maps a Navbar event to an abstract event.
    \<^item> \<open>fifo_event\<close> picks out the runs where replies arrive in request
      order.
  \<^item> \<open>LiveSession\<close>:
    \<^item> From SpeakerView.tsx: \<open>speakers\<close> (the filter of lines 11--17),
      \<open>use_memo_speakers\<close> (\<open>useMemo\<close> keyed on the participants object's
      identity, \<open>participants_ref\<close>) and \<open>speaker_view\<close> (the rendered
      elements).
    \<^item> From spec 4.3: the provider's pushes (\<open>live_step\<close>; a new map object
      per change), the controller's \<open>partitionByMode\<close>, and the session
      lifecycle \<open>ctrl_apply\<close>/\<open>ctrl_run\<close>. The lifecycle order
      \<open>NOT_STARTED < STARTED < STOPPED\<close> is the library's \<open>linorder\<close> on
      \<open>session_state\<close> (an \<open>instantiation\<close>), so the controller is
      stated with \<open>\<le>\<close>.
  \<^item> \<open>Receipt\<close> (ThankYou.tsx lines 25--104): \<open>format_date\<close>, \<open>header_texts\<close>,
    \<open>build_rows\<close> (the \<open>forEach\<close> loop), \<open>total_line\<close> (\<open>didDrawPage\<close>),
    \<open>draw_table\<close>, \<open>generatePDFBlob\<close> (a result \<open>receipt_error + pdf_doc\<close>:
    the \<open>TypeError\<close> at \<open>user.name\<close> is the \<open>Inl\<close> branch) and \<open>printPDF\<close>
    (its \<open>catch\<close>).
  \<^item> \<open>ThankYouPage\<close> (ThankYou.tsx lines 15--24 and 106--130): the store
    slices the page reads (\<open>thank_store\<close>), its render (\<open>thank_view\<close>),
    and its clicks (\<open>thank_click\<close>): home, and the print button running
    \<open>printPDF\<close>.
  \<^item> \<open>Footer\<close> (Footer.tsx): its static columns, as data.
  \<^item> \<open>Routes\<close> (routes/index.ts lines 18--50, Navbar.tsx lines 88--119 and
    180--201): \<open>publicRoutes\<close>, \<open>privateRoutes\<close>, the first-match lookup, and
    the Navbar's links.
  \<^item> \<open>ChatRelay\<close> (modelled from spec 4.4):
    \<^item> \<open>send\<close> is refused with \<open>NotConnectedError\<close> unless the SpeakerView's
      session has started;
    \<^item> messages travel in per-sender FIFO queues with free interleaving
      across senders (\<open>deliver_from\<close>);
    \<^item> \<open>on_message\<close> routes a cart notification to the receiver's Navbar as
      \<open>nav_step (Publish upd_topic)\<close>.

    \<open>relay_reach\<close> interleaves relay, session and Navbar events.

  What the lemmas show:

  \<^item> Navbar (C1--C3, C5--C7, C9--C11):
    \<^item> An invariant \<open>nav_inv\<close>, preserved by every event and hence true of
      every reachable state (C1): exactly one subscription while mounted and
      none after, and the click-outside listener present exactly while the
      menu is open.
    \<^item> A publish makes the mounted instance fetch once, for the captured
      user and with the backend's current cart (C2); once that request is
      answered the badge shows the number of lines of that cart (C3).
    \<^item> A reply sets the badge to its number of lines (C5); a reply to an
      instance that is no longer mounted changes nothing (C6); a failure
      keeps the badge (C7).
    \<^item> A \<open>mousedown\<close> outside the open menu closes it (C9); mount then
      unmount leaves the bus as it was (C10); an unmounted instance ignores
      every publish (C11).
  \<^item> CartSyncSpec (C4): the Navbar refines the abstract Cart Synchronizer on
    in-order runs. The abstraction of the state after any such run is the
    abstract machine run on the mapped events. Two choices of the abstract
    machine follow the code: the count is the number of lines (spec 8's
    example counts quantities, a divergence recorded as a finding), and
    there is no rule for a refresh without a user (spec 4.2's empty
    snapshot), since the Navbar fetches for the user captured at mount.
  \<^item> ThankYouPage (C8): the print button opens the receipt of the paid
    cart exactly when a user is logged in, with every row once and in order
    and the total on every page; otherwise it logs the error.
  \<^item> LiveSession (C12--C13): the memoised render equals the unmemoised one
    in every reachable state, and the speaker filter is the conference
    group of \<open>partitionByMode\<close>.
  \<^item> Receipt (C14--C16, C21): the pages partition the rows within capacity
    with the total in every footer (C14); the error path without a user
    (C15); the printed date reads back to the day, month and year (C16);
    one cell per header column in every row (C21).
  \<^item> NavbarView (C17--C19): the login control follows \<open>localStorage\<close>, not
    the Redux user, and the language select matches only exact option
    values (C17); a mobile link closes the open menu and navigates to an
    existing route, while the mobile login link does not close it (C18);
    the menu button cannot close the open menu, since its \<open>mousedown\<close>
    closes it and its click reopens it (C19).
  \<^item> CartRequests (C20): the request queue grows by at most one per mount
    and per \<open>updateCartNumber\<close> publish.
  \<^item> EventBus, Footer, Routes, ChatRelay and the session controller of
    LiveSession are modelled as definitions with supporting lemmas and no
    claims of their own; NavbarView's C18 uses the route table.

  Modelling choices:

  \<^item> A \<open>getCartByUser\<close> call is answered with the backend's cart at the time it
    is issued, and its reply (\<open>Resolve i\<close>) or failure (\<open>Reject i\<close>) arrives
    later in any order. This covers every interleaving of one-shot replies.
  \<^item> React drops state updates of unmounted instances. \<open>setState\<close> bails out on
    an unchanged value. An effect's cleanup runs before its next run.
  \<^item> The page capacities of jspdf-autotable are parameters \<open>c1\<close> (first page)
    and \<open>c2\<close> (the others), because the library's layout is not among the
    sources. Every theorem holds for all capacities.
  \<^item> No fuel is needed. Every loop of the code is structural recursion or a
    \<open>fold\<close> over a finite list, and \<open>chunks\<close> terminates by the length
    measure.
  \<^item> Parts of the repository outside \<open>src/\<close> are modelled from the spec: the emitter, the provider's pushes, the
    controller, the chat relay, and the PDF library's pagination.

  Not modelled:

  \<^item> The backend client (\<open>fe/src/api/axios\<close>): it is not among the
    sources.
    \<^item> \<open>getCartByUser\<close> is modelled only through its contract: a request
      answered from the backend's cart for the user, delivered or failed
      later.
    \<^item> \<open>logoutUser\<close> is a call whose effect is not modelled.

    Every file under \<open>src/\<close> is otherwise modelled. The lines left unmapped
    are imports, \<open>console.log(user)\<close> and \<open>activeNavLink\<close>'s class names.
    Whether a link is active depends on the path strings of
    \<open>config.routes\<close>, which are not among the sources.

  \<^item> What \<open>logoutUser\<close> and \<open>i18n.changeLanguage\<close> do: they lie outside
    the sources. The model records that the call is made.
  \<^item> Whether the Navbar stays mounted across a navigation depends on
    \<open>App\<close>, which is not among the sources. The click claims are about
    the Navbar instance that receives the click.
  \<^item> Styling, fonts, the logo and the coupon card's content: no
    observable content in the model.
  \<^item> The Footer has no claims: it has no state, input or handler. It is
    modelled as data only.
  \<^item> The video transport: the provider is treated as a source of events.
  \<^item> The path strings of \<open>config.routes\<close>: not among the sources, so a route
    is identified by its key.
\<close>

end
